theory Spec2Isabelle
  imports Complex_Main "HOL-Library.Sublist" "HOL-Library.Multiset"
begin

text \<open>
  A shallow embedding of the ingestion and retrieval pipeline of the speech-to-RAG engine:
  the fan-out retrieval functions, the source mapping directory with its retry helper, the
  rate-limit-aware embedding client, the two call-ingestion routes, and the response
  orchestrator. Remote collaborators (the store, the providers, the clock, the random
  source) are parameters of the functions that use them; what a function does to them is
  returned as a list of calls next to its result, and what it throws is the left summand of
  its result. The definitions come first, the properties after them.
\<close>


section \<open>Shared data: store responses and thrown values\<close>

text \<open>
  The Supabase client answers every request with a pair \<open>{data, error}\<close> of which exactly
  one is set (the client library types it as a discriminated union), so a response is a sum:
  \<open>Inl\<close> the error object, \<open>Inr\<close> the data.
\<close>

record pg_error =
  code :: string
  message :: string

type_synonym 'a pg_result = "pg_error + 'a"

text \<open>
  Values that the TypeScript code throws: a store error object rethrown as it is
  (\<open>throw error\<close>), or \<open>new Error(message)\<close>.
\<close>

datatype thrown = PgThrown pg_error | Error string

section \<open>Retrieval (src/lib/retrieval.ts)\<close>

text \<open>
  Numbers are rationals: an embedding is a list of them, and a similarity is one (the index
  computes it as one minus a distance, a finite number). A \<open>limit\<close> is a count, a natural
  number.
\<close>

type_synonym embedding = "rat list"

text \<open>A row returned by the \<open>match_documents\<close> remote procedure.\<close>

record match_row =
  row_id :: string
  chunk :: string
  similarity :: rat
  source_type :: string
  source_id :: string

text \<open>
  The multi-file path spreads each row into a new object with an added \<open>file_id\<close>;
  rows that went through the single-file path carry none.
\<close>

record file_match = match_row +
  file_id :: "string option"

text \<open>The argument object of one \<open>supabase.rpc("match_documents", ...)\<close> request.\<close>

record rpc_args =
  query_embedding :: embedding
  match_count :: nat
  target_file :: "string option"
  source_types :: "string list"

type_synonym match_documents = "rpc_args \<Rightarrow> match_row list pg_result"

text \<open>
  Every retrieval function returns the list of remote requests it issued, in order,
  together with its outcome (\<open>Inl\<close> what it threw, \<open>Inr\<close> what it returned).
\<close>

definition retrieveRelevantChunks ::
  "match_documents \<Rightarrow> embedding \<Rightarrow> string option \<Rightarrow> nat \<Rightarrow> string list
     \<Rightarrow> rpc_args list \<times> (thrown + match_row list)" where
  "retrieveRelevantChunks rpc queryEmbedding fileId limit sourceTypes =
     (let args = \<lparr>query_embedding = queryEmbedding, match_count = limit,
                   target_file = fileId, source_types = sourceTypes\<rparr>
      in case rpc args of
           Inl error \<Rightarrow> ([args], Inl (PgThrown error))
         | Inr data \<Rightarrow> ([args], Inr data))"

text \<open>
  \<open>Array.prototype.sort\<close> with a comparator is a stable sort: \<open>a\<close> is placed before
  \<open>b\<close> when \<open>cmp a b < 0\<close>, and elements that compare equal keep their order.
  \<open>js_insert\<close> puts an element, which precedes all of \<open>ys\<close> in the original
  array, into the already sorted \<open>ys\<close>.
\<close>

fun js_insert :: "('a \<Rightarrow> 'a \<Rightarrow> rat) \<Rightarrow> 'a \<Rightarrow> 'a list \<Rightarrow> 'a list" where
  "js_insert cmp x [] = [x]"
| "js_insert cmp x (y # ys) =
     (if cmp x y \<le> 0 then x # y # ys else y # js_insert cmp x ys)"

definition js_sort :: "('a \<Rightarrow> 'a \<Rightarrow> rat) \<Rightarrow> 'a list \<Rightarrow> 'a list" where
  "js_sort cmp xs = foldr (js_insert cmp) xs []"

text \<open>The comparator \<open>(a, b) => b.similarity - a.similarity\<close>.\<close>

definition by_similarity :: "'a match_row_scheme \<Rightarrow> 'a match_row_scheme \<Rightarrow> rat" where
  "by_similarity a b = similarity b - similarity a"

text \<open>\<open>xs.slice(0, limit)\<close> for a count \<open>limit\<close>.\<close>

definition slice0 :: "nat \<Rightarrow> 'a list \<Rightarrow> 'a list" where
  "slice0 limit xs = take limit xs"

definition with_file_id :: "string \<Rightarrow> match_row \<Rightarrow> file_match" where
  "with_file_id fileId c = match_row.extend c \<lparr>file_id = Some fileId\<rparr>"

definition without_file_id :: "match_row \<Rightarrow> file_match" where
  "without_file_id c = match_row.extend c \<lparr>file_id = None\<rparr>"

text \<open>
  The \<open>for (const fileId of fileIds)\<close> loop of \<open>retrieveRelevantChunksFromFiles\<close>:
  a request that throws ends the loop, and the remaining files are not queried.
\<close>

fun files_loop ::
  "match_documents \<Rightarrow> embedding \<Rightarrow> nat \<Rightarrow> string list \<Rightarrow> file_match list
     \<Rightarrow> rpc_args list \<times> (thrown + file_match list)" where
  "files_loop rpc queryEmbedding limit [] allChunks = ([], Inr allChunks)"
| "files_loop rpc queryEmbedding limit (fileId # rest) allChunks =
     (case retrieveRelevantChunks rpc queryEmbedding (Some fileId) limit [''pdf''] of
        (calls, Inl e) \<Rightarrow> (calls, Inl e)
      | (calls, Inr chunks) \<Rightarrow>
          (case files_loop rpc queryEmbedding limit rest
                  (allChunks @ map (with_file_id fileId) chunks) of
             (calls', r) \<Rightarrow> (calls @ calls', r)))"

definition retrieveRelevantChunksFromFiles ::
  "match_documents \<Rightarrow> embedding \<Rightarrow> string list \<Rightarrow> nat
     \<Rightarrow> rpc_args list \<times> (thrown + file_match list)" where
  "retrieveRelevantChunksFromFiles rpc queryEmbedding fileIds limit =
     (if length fileIds = 0 then ([], Inr [])
      else if length fileIds = 1 then
        (case retrieveRelevantChunks rpc queryEmbedding (Some (hd fileIds)) limit [''pdf''] of
           (calls, Inl e) \<Rightarrow> (calls, Inl e)
         | (calls, Inr chunks) \<Rightarrow> (calls, Inr (map without_file_id chunks)))
      else
        (case files_loop rpc queryEmbedding limit fileIds [] of
           (calls, Inl e) \<Rightarrow> (calls, Inl e)
         | (calls, Inr allChunks) \<Rightarrow>
             (calls, Inr (slice0 limit (js_sort by_similarity allChunks)))))"

text \<open>The same loop in \<open>retrieveRelevantChunksForPhone\<close>, which pushes the rows unchanged.\<close>

fun phone_files_loop ::
  "match_documents \<Rightarrow> embedding \<Rightarrow> nat \<Rightarrow> string list \<Rightarrow> match_row list
     \<Rightarrow> rpc_args list \<times> (thrown + match_row list)" where
  "phone_files_loop rpc queryEmbedding limit [] allChunks = ([], Inr allChunks)"
| "phone_files_loop rpc queryEmbedding limit (fileId # rest) allChunks =
     (case retrieveRelevantChunks rpc queryEmbedding (Some fileId) limit [''pdf''] of
        (calls, Inl e) \<Rightarrow> (calls, Inl e)
      | (calls, Inr chunks) \<Rightarrow>
          (case phone_files_loop rpc queryEmbedding limit rest (allChunks @ chunks) of
             (calls', r) \<Rightarrow> (calls @ calls', r)))"

definition retrieveRelevantChunksForPhone ::
  "match_documents \<Rightarrow> embedding \<Rightarrow> string list \<Rightarrow> string list \<Rightarrow> nat
     \<Rightarrow> rpc_args list \<times> (thrown + match_row list)" where
  "retrieveRelevantChunksForPhone rpc queryEmbedding fileIds callIds limit =
     (case (if length fileIds > 0 then phone_files_loop rpc queryEmbedding limit fileIds []
            else ([], Inr [])) of
        (calls, Inl e) \<Rightarrow> (calls, Inl e)
      | (calls, Inr allChunks) \<Rightarrow>
          (if length callIds > 0 then
             (case retrieveRelevantChunks rpc queryEmbedding None (limit * length callIds)
                     [''call''] of
                (calls', Inl e) \<Rightarrow> (calls @ calls', Inl e)
              | (calls', Inr callChunks) \<Rightarrow>
                  (let filteredCallChunks =
                         filter (\<lambda>chunk. source_id chunk \<in> set callIds) callChunks
                   in (calls @ calls',
                       Inr (slice0 limit
                             (js_sort by_similarity (allChunks @ filteredCallChunks))))))
           else (calls, Inr (slice0 limit (js_sort by_similarity allChunks)))))"

text \<open>
  The request that the per-document loops send for one file: the caller's embedding, the
  caller's \<open>limit\<close> as \<open>match_count\<close>, the file as \<open>target_file\<close>.
\<close>

definition file_request :: "embedding \<Rightarrow> nat \<Rightarrow> string \<Rightarrow> rpc_args" where
  "file_request queryEmbedding limit fileId =
     \<lparr>query_embedding = queryEmbedding, match_count = limit,
      target_file = Some fileId, source_types = [''pdf'']\<rparr>"

text \<open>A list of matches in order of non-increasing similarity.\<close>

definition descending :: "'a match_row_scheme list \<Rightarrow> bool" where
  "descending xs = sorted_wrt (\<lambda>a b. similarity b \<le> similarity a) xs"

subsection \<open>A small index, for concrete runs\<close>

definition example_row :: "string \<Rightarrow> rat \<Rightarrow> match_row" where
  "example_row i s =
     \<lparr>row_id = i, chunk = ''text of '' @ i, similarity = s,
      source_type = ''pdf'', source_id = i\<rparr>"

definition example_rows :: "string \<Rightarrow> match_row list" where
  "example_rows f =
     (if f = ''doc-a'' then [example_row ''a1'' (1/2), example_row ''a2'' (9/10)]
      else [example_row ''b1'' (7/10), example_row ''b2'' (3/10)])"

definition example_rpc :: match_documents where
  "example_rpc args =
     (case target_file args of
        None \<Rightarrow> Inl \<lparr>code = ''XX000'', message = ''no target file''\<rparr>
      | Some f \<Rightarrow> Inr (take (match_count args) (example_rows f)))"


text \<open>
  \<open>retrieveRelevantShopifyChunks\<close>: one request to the \<open>match_shopify_chunks\<close> remote
  procedure for a store, and each row renamed. The request is recorded by its store and its
  \<open>match_count\<close>.
\<close>

record shopify_row =
  sr_id :: string
  sr_chunk_text :: string
  sr_similarity :: rat
  sr_store_id :: string
  sr_content_type :: string
  sr_title :: string
  sr_metadata :: string

record shopify_match =
  sm_id :: string
  sm_chunk :: string
  sm_similarity :: rat
  sm_store_id :: string
  sm_content_type :: string
  sm_title :: string
  sm_metadata :: string

type_synonym match_shopify_chunks = "embedding \<Rightarrow> string \<Rightarrow> nat \<Rightarrow> shopify_row list pg_result"

definition retrieveRelevantShopifyChunks ::
  "match_shopify_chunks \<Rightarrow> embedding \<Rightarrow> string \<Rightarrow> nat
     \<Rightarrow> (string \<times> nat) list \<times> (thrown + shopify_match list)" where
  "retrieveRelevantShopifyChunks rpc queryEmbedding storeId limit =
     (case rpc queryEmbedding storeId limit of
        Inl error \<Rightarrow> ([(storeId, limit)], Inl (PgThrown error))
      | Inr data \<Rightarrow>
          ([(storeId, limit)],
           Inr (map (\<lambda>row. \<lparr>sm_id = sr_id row, sm_chunk = sr_chunk_text row,
                              sm_similarity = sr_similarity row,
                              sm_store_id = sr_store_id row,
                              sm_content_type = sr_content_type row,
                              sm_title = sr_title row,
                              sm_metadata = sr_metadata row\<rparr>) data)))"


section \<open>Source mapping directory (src/lib/phoneMapping.ts)\<close>

text \<open>
  \<open>retrySupabaseQuery\<close> calls \<open>queryFn\<close> several times, and the store may answer
  each call differently, so a query function is modelled by its successive answers:
  \<open>queryFn k\<close> is the answer to call number \<open>k\<close>, counted from 0. What the function
  does with the outside world is recorded as a list of events: a call of \<open>queryFn\<close>, or a
  \<open>setTimeout\<close> pause of so many milliseconds.
\<close>

datatype retry_event = Attempt | Wait nat

text \<open>
  The \<open>for (let attempt = 1; attempt <= maxRetries; attempt++)\<close> loop. It yields
  \<open>Some result\<close> when it returns from inside, and \<open>None\<close> when it runs out.
\<close>

function retry_loop ::
  "(nat \<Rightarrow> 'a pg_result) \<Rightarrow> nat \<Rightarrow> nat \<Rightarrow> retry_event list \<times> 'a pg_result option" where
  "retry_loop queryFn maxRetries attempt =
     (if attempt \<le> maxRetries then
        (let result = queryFn (attempt - 1) in
         if isl result then
           (let pause = (if attempt < maxRetries then [Wait (attempt * 1000)] else []) in
            case retry_loop queryFn maxRetries (attempt + 1) of
              (events, r) \<Rightarrow> (Attempt # pause @ events, r))
         else ([Attempt], Some result))
      else ([], None))"
  by pat_completeness auto
termination
  by (relation "measure (\<lambda>(queryFn, maxRetries, attempt). Suc maxRetries - attempt)") auto

text \<open>
  After the loop the function does not return the last answer it got: it calls
  \<open>queryFn\<close> once more and returns that answer. The loop has made \<open>maxRetries\<close> calls
  by then, so this one is call number \<open>maxRetries\<close>.
\<close>

definition retrySupabaseQuery ::
  "(nat \<Rightarrow> 'a pg_result) \<Rightarrow> nat \<Rightarrow> retry_event list \<times> 'a pg_result" where
  "retrySupabaseQuery queryFn maxRetries =
     (case retry_loop queryFn maxRetries 1 of
        (events, Some result) \<Rightarrow> (events, result)
      | (events, None) \<Rightarrow> (events @ [Attempt], queryFn maxRetries))"

text \<open>The number of remote queries among the events.\<close>

definition attempts :: "retry_event list \<Rightarrow> nat" where
  "attempts events = length (filter (\<lambda>e. e = Attempt) events)"

text \<open>The pauses among the events, in milliseconds, in order.\<close>

fun pauses :: "retry_event list \<Rightarrow> nat list" where
  "pauses [] = []"
| "pauses (Attempt # es) = pauses es"
| "pauses (Wait ms # es) = ms # pauses es"

text \<open>
  JavaScript truthiness of a nullable string column: \<open>null\<close> and the empty string are
  falsy.
\<close>

fun truthy :: "string option \<Rightarrow> bool" where
  "truthy None = False"
| "truthy (Some s) = (s \<noteq> [])"

text \<open>
  A lookup yields the events of its query, the lines it wrote with \<open>console.error\<close>, and
  the value it returned.
\<close>

record 'a lookup =
  events :: "retry_event list"
  logged :: "string list"
  returned :: 'a

record data_source_row =
  data_source :: "string option"

text \<open>
  \<open>getDataSourceForPhone\<close>. The store is given by its answers to the
  \<open>.single()\<close> query for a phone number; zero rows is the error with code
  \<open>PGRST116\<close>. The declared result type is \<open>'file' | 'shopify' | null\<close>; the value
  returned is the column as stored, or \<open>'file'\<close> when it is falsy.
\<close>

definition getDataSourceForPhone ::
  "(string \<Rightarrow> nat \<Rightarrow> data_source_row pg_result) \<Rightarrow> string \<Rightarrow> string option lookup" where
  "getDataSourceForPhone store phoneNumber =
     (case retrySupabaseQuery (store phoneNumber) 3 of
        (evs, Inl error) \<Rightarrow>
          (if code error = ''PGRST116''
           then \<lparr>events = evs, logged = [], returned = None\<rparr>
           else \<lparr>events = evs,
                  logged = [''Error fetching data source for phone number:''],
                  returned = None\<rparr>)
      | (evs, Inr data) \<Rightarrow>
          \<lparr>events = evs, logged = [],
           returned = (if truthy (data_source data) then data_source data
                       else Some ''file'')\<rparr>)"

record shopify_store_row =
  shopify_store_id :: "string option"

definition getShopifyStoreForPhoneNumber ::
  "(string \<Rightarrow> nat \<Rightarrow> shopify_store_row pg_result) \<Rightarrow> string \<Rightarrow> string option lookup" where
  "getShopifyStoreForPhoneNumber store phoneNumber =
     (case retrySupabaseQuery (store phoneNumber) 3 of
        (evs, Inl error) \<Rightarrow>
          (if code error = ''PGRST116''
           then \<lparr>events = evs, logged = [], returned = None\<rparr>
           else \<lparr>events = evs,
                  logged = [''Error fetching Shopify store for phone number:''],
                  returned = None\<rparr>)
      | (evs, Inr data) \<Rightarrow>
          \<lparr>events = evs, logged = [],
           returned = (if truthy (shopify_store_id data) then shopify_store_id data
                       else None)\<rparr>)"

record file_mapping_row =
  mapped_file_id :: "string option"

text \<open>
  \<open>getFilesForPhoneNumber\<close> and \<open>getCallsForPhoneNumber\<close> send their query once,
  without \<open>retrySupabaseQuery\<close>; here the store is given by its one answer.
\<close>

definition getFilesForPhoneNumber ::
  "(string \<Rightarrow> file_mapping_row list pg_result) \<Rightarrow> string \<Rightarrow> string list lookup" where
  "getFilesForPhoneNumber store phoneNumber =
     (case store phoneNumber of
        Inl error \<Rightarrow>
          \<lparr>events = [Attempt], logged = [''Error fetching files for phone number:''],
           returned = []\<rparr>
      | Inr data \<Rightarrow>
          \<lparr>events = [Attempt], logged = [],
           returned = map the (filter truthy (map mapped_file_id data))\<rparr>)"

record call_mapping_row =
  mapped_call_id :: "string option"

definition getCallsForPhoneNumber ::
  "(string \<Rightarrow> call_mapping_row list pg_result) \<Rightarrow> string \<Rightarrow> string list lookup" where
  "getCallsForPhoneNumber store phoneNumber =
     (case store phoneNumber of
        Inl error \<Rightarrow>
          \<lparr>events = [Attempt], logged = [''Error fetching calls for phone number:''],
           returned = []\<rparr>
      | Inr data \<Rightarrow>
          \<lparr>events = [Attempt], logged = [],
           returned = map the (filter truthy (map mapped_call_id data))\<rparr>)"

subsection \<open>Stores for concrete runs\<close>

definition connection_error :: pg_error where
  "connection_error = \<lparr>code = ''08006'', message = ''connection failure''\<rparr>"

definition no_rows_error :: pg_error where
  "no_rows_error = \<lparr>code = ''PGRST116'', message = ''JSON object requested, no rows returned''\<rparr>"

text \<open>A store that fails on every query, and one that has no row for any phone number.\<close>

definition unreachable_store :: "string \<Rightarrow> nat \<Rightarrow> 'a pg_result" where
  "unreachable_store phoneNumber k = Inl connection_error"

definition empty_store :: "string \<Rightarrow> nat \<Rightarrow> 'a pg_result" where
  "empty_store phoneNumber k = Inl no_rows_error"

text \<open>A store whose row for every phone number has no data source set.\<close>

definition unset_source_store :: "string \<Rightarrow> nat \<Rightarrow> data_source_row pg_result" where
  "unset_source_store phoneNumber k = Inr \<lparr>data_source = None\<rparr>"


section \<open>Embedding client (embedTextWithRateLimit, in the second file of src/lib/phoneMapping.ts)\<close>

text \<open>
  What \<open>embedText\<close> throws is read through \<open>error?.statusCode\<close> and
  \<open>error?.message\<close> only, so a thrown value is these two fields, each of which may be
  missing.
\<close>

record embed_error =
  statusCode :: "int option"
  error_message :: "string option"

text \<open>\<open>s.includes(sub)\<close>: \<open>sub\<close> occurs in \<open>s\<close> as a contiguous substring.\<close>

fun js_includes :: "string \<Rightarrow> string \<Rightarrow> bool" where
  "js_includes [] sub = (sub = [])"
| "js_includes (c # cs) sub = (prefix sub (c # cs) \<or> js_includes cs sub)"

definition isRateLimit :: "embed_error \<Rightarrow> bool" where
  "isRateLimit error =
     (statusCode error = Some 429
      \<or> (case error_message error of None \<Rightarrow> False | Some m \<Rightarrow> js_includes m ''429'')
      \<or> (case error_message error of None \<Rightarrow> False | Some m \<Rightarrow> js_includes m ''rate limit''))"

definition embed_maxRetries :: nat where
  "embed_maxRetries = 5"

text \<open>\<open>new Error(message)\<close> as a thrown value.\<close>

definition new_Error :: "string \<Rightarrow> embed_error" where
  "new_Error m = \<lparr>statusCode = None, error_message = Some m\<rparr>"

text \<open>
  A run of the client: how many times it called \<open>embedText\<close>, the \<open>setTimeout\<close>
  pauses it made (in milliseconds, in order), the cache afterwards, and what it returned
  (\<open>Inr\<close>) or threw (\<open>Inl\<close>).
\<close>

record embed_run =
  embed_calls :: nat
  waited :: "rat list"
  cache_after :: "string \<rightharpoonup> embedding"
  outcome :: "embed_error + embedding"

text \<open>
  The \<open>for (let attempt = 0; attempt < maxRetries; attempt++)\<close> loop. The provider is
  given by its successive answers for the text: \<open>embedText text k\<close> is the outcome of call
  number \<open>k\<close>; the loop makes one call per iteration, so iteration \<open>attempt\<close> makes call
  number \<open>attempt\<close>. In the same way \<open>random k\<close> is the value of the \<open>k\<close>-th call of
  \<open>Math.random()\<close>.
\<close>

function embed_loop ::
  "(string \<Rightarrow> nat \<Rightarrow> embed_error + embedding) \<Rightarrow> (nat \<Rightarrow> rat) \<Rightarrow> string
     \<Rightarrow> (string \<rightharpoonup> embedding) \<Rightarrow> nat \<Rightarrow> embed_error option \<Rightarrow> embed_run" where
  "embed_loop embedText random text cache attempt lastError =
     (if attempt < embed_maxRetries then
        (case embedText text attempt of
           Inr embedding \<Rightarrow>
             \<lparr>embed_calls = 1, waited = [], cache_after = cache(text \<mapsto> embedding),
              outcome = Inr embedding\<rparr>
         | Inl error \<Rightarrow>
             (if isRateLimit error \<and> attempt < embed_maxRetries - 1 then
                (let baseWait = 2 ^ attempt * 1000;
                     jitter = random attempt * 1000;
                     waitTime = baseWait + jitter;
                     rest = embed_loop embedText random text cache (attempt + 1) (Some error)
                 in rest\<lparr>embed_calls := embed_calls rest + 1,
                         waited := waitTime # waited rest\<rparr>)
              else \<lparr>embed_calls = 1, waited = [], cache_after = cache,
                     outcome = Inl error\<rparr>))
      else \<lparr>embed_calls = 0, waited = [], cache_after = cache,
             outcome = Inl (case lastError of
                              Some error \<Rightarrow> error
                            | None \<Rightarrow> new_Error
                                ''Failed to generate embedding after all retries'')\<rparr>)"
  by pat_completeness auto
termination
  by (relation "measure (\<lambda>(embedText, random, text, cache, attempt, lastError).
                           embed_maxRetries - attempt)") auto

definition embedTextWithRateLimit ::
  "(string \<Rightarrow> nat \<Rightarrow> embed_error + embedding) \<Rightarrow> (nat \<Rightarrow> rat) \<Rightarrow> string
     \<Rightarrow> (string \<rightharpoonup> embedding) \<Rightarrow> embed_run" where
  "embedTextWithRateLimit embedText random text cache =
     (case cache text of
        Some embedding \<Rightarrow>
          \<lparr>embed_calls = 0, waited = [], cache_after = cache, outcome = Inr embedding\<rparr>
      | None \<Rightarrow> embed_loop embedText random text cache 0 None)"

text \<open>The pause after the failed call number \<open>k\<close>, for a given jitter source.\<close>

definition backoff :: "(nat \<Rightarrow> rat) \<Rightarrow> nat \<Rightarrow> rat" where
  "backoff random k = 2 ^ k * 1000 + random k * 1000"

text \<open>Call number \<open>k\<close> for the text failed with a rate-limit error.\<close>

definition rate_limited :: "(string \<Rightarrow> nat \<Rightarrow> embed_error + embedding) \<Rightarrow> string \<Rightarrow> nat \<Rightarrow> bool" where
  "rate_limited embedText text k =
     (case embedText text k of Inl error \<Rightarrow> isRateLimit error | Inr embedding \<Rightarrow> False)"

subsection \<open>Providers for concrete runs\<close>

definition rate_limit_error :: embed_error where
  "rate_limit_error = \<lparr>statusCode = Some 429, error_message = Some ''Too Many Requests''\<rparr>"

definition bad_request_error :: embed_error where
  "bad_request_error = \<lparr>statusCode = Some 400, error_message = Some ''Bad Request''\<rparr>"

text \<open>A provider that is rate limited on every call.\<close>

definition throttled :: "string \<Rightarrow> nat \<Rightarrow> embed_error + embedding" where
  "throttled text k = Inl rate_limit_error"

text \<open>A provider that is rate limited twice and then rejects the request.\<close>

definition throttled_then_rejected :: "string \<Rightarrow> nat \<Rightarrow> embed_error + embedding" where
  "throttled_then_rejected text k = (if k < 2 then Inl rate_limit_error else Inl bad_request_error)"

definition half_jitter :: "nat \<Rightarrow> rat" where
  "half_jitter k = 1/2"


section \<open>Ingestion: what both call routes share\<close>

text \<open>
  \<open>src/app/api/process-calls-worker/route.ts\<close> and \<open>src/app/api/process-call/route.ts\<close>
  each contain the same two helpers, \<open>transcribeAudio\<close> and \<open>classifyTranscript\<close>.
  The speech-to-text provider answers with a string, or with an object that may have a
  \<open>text\<close> property.
\<close>

type_synonym audio = "nat list"

datatype transcription = TextResponse string | ObjectResponse "string option"

definition transcribeAudio ::
  "(audio \<Rightarrow> string \<Rightarrow> thrown + transcription) \<Rightarrow> audio \<Rightarrow> string \<Rightarrow> thrown + string" where
  "transcribeAudio whisper audioBuffer fileName =
     (case whisper audioBuffer fileName of
        Inl error \<Rightarrow> Inl (Error ''Failed to transcribe audio'')
      | Inr (TextResponse transcript) \<Rightarrow> Inr transcript
      | Inr (ObjectResponse t) \<Rightarrow> Inr (if truthy t then the t else ''''))"

text \<open>Values that \<open>JSON.parse\<close> can produce, and their truthiness.\<close>

datatype json =
  JNull | JBool bool | JNum rat | JStr string | JArr "json list" | JObj "(string \<times> json) list"

fun js_truthy :: "json \<Rightarrow> bool" where
  "js_truthy JNull = False"
| "js_truthy (JBool b) = b"
| "js_truthy (JNum n) = (n \<noteq> 0)"
| "js_truthy (JStr s) = (s \<noteq> [])"
| "js_truthy (JArr xs) = True"
| "js_truthy (JObj kvs) = True"

text \<open>
  \<open>v.key || fallback\<close> for a parsed value \<open>v\<close> other than \<open>null\<close>: the property when
  it is there and truthy, the fallback otherwise. Only an object has such a property; the
  keys of a parsed object are distinct.
\<close>

fun property_or :: "json \<Rightarrow> string \<Rightarrow> json \<Rightarrow> json" where
  "property_or (JObj kvs) k fallback =
     (case map_of kvs k of
        None \<Rightarrow> fallback
      | Some x \<Rightarrow> if js_truthy x then x else fallback)"
| "property_or v k fallback = fallback"

text \<open>
  \<open>s.trim()\<close>. A \<open>string\<close> here is a list of 8-bit characters, and these are the
  white-space and line-terminator characters of JavaScript among them.
\<close>

definition is_js_whitespace :: "char \<Rightarrow> bool" where
  "is_js_whitespace c =
     (c \<in> set [CHR 0x09, CHR 0x0A, CHR 0x0B, CHR 0x0C, CHR 0x0D, CHR 0x20, CHR 0xA0])"

definition js_trim :: "string \<Rightarrow> string" where
  "js_trim s = rev (dropWhile is_js_whitespace (rev (dropWhile is_js_whitespace s)))"

record classification =
  isBlank :: json
  isSpam :: json
  is11zaRelated :: json
  blankConfidence :: json
  spamConfidence :: json
  relevanceConfidence :: json

text \<open>The \<open>catch\<close> block of \<open>classifyTranscript\<close>.\<close>

definition conservative_classification :: "string \<Rightarrow> classification" where
  "conservative_classification transcript =
     \<lparr>isBlank = JBool (length (js_trim transcript) < 50),
      isSpam = JBool False,
      is11zaRelated = JBool False,
      blankConfidence = JNum (1/2),
      spamConfidence = JNum (1/2),
      relevanceConfidence = JNum (1/2)\<rparr>"

text \<open>
  \<open>classifyTranscript\<close>. The chat provider is given by what the completion request for
  the prompt built from a transcript does: it throws, or it yields the \<open>content\<close> of the
  first choice, which may be missing. \<open>JSON.parse\<close> is given by its result on a string.
  Everything thrown inside the \<open>try\<close> block (by the request, by the check for missing
  content, by \<open>JSON.parse\<close>, by reading a property of \<open>null\<close>) ends in the \<open>catch\<close>
  block.
\<close>

definition classifyTranscript ::
  "(string \<Rightarrow> thrown + string option) \<Rightarrow> (string \<Rightarrow> thrown + json) \<Rightarrow> string
     \<Rightarrow> classification" where
  "classifyTranscript classifier json_parse transcript =
     (case classifier transcript of
        Inl error \<Rightarrow> conservative_classification transcript
      | Inr content \<Rightarrow>
          (if \<not> truthy content then conservative_classification transcript
           else
             (case json_parse (the content) of
                Inl error \<Rightarrow> conservative_classification transcript
              | Inr JNull \<Rightarrow> conservative_classification transcript
              | Inr parsed \<Rightarrow>
                  \<lparr>isBlank = property_or parsed ''isBlank'' (JBool False),
                   isSpam = property_or parsed ''isSpam'' (JBool False),
                   is11zaRelated = property_or parsed ''is11zaRelated'' (JBool False),
                   blankConfidence = property_or parsed ''blankConfidence'' (JNum 0),
                   spamConfidence = property_or parsed ''spamConfidence'' (JNum 0),
                   relevanceConfidence =
                     property_or parsed ''relevanceConfidence'' (JNum 0)\<rparr>)))"

text \<open>
  \<open>error instanceof Error ? error.message : 'Unknown error'\<close>. Whether the error objects
  of the store client are instances of \<open>Error\<close> depends on the version of the client
  library, which is not part of the sources; it is a parameter.
\<close>

fun message_of :: "bool \<Rightarrow> thrown \<Rightarrow> string" where
  "message_of pg_instanceof_Error (Error m) = m"
| "message_of pg_instanceof_Error (PgThrown e) =
     (if pg_instanceof_Error then message e else ''Unknown error'')"

text \<open>
  \<open>Promise.all\<close> over calls that have all been started: the results in order, or a
  rejection. When several calls reject, the model takes the first in list order.
\<close>

fun promise_all :: "(thrown + 'a) list \<Rightarrow> thrown + 'a list" where
  "promise_all [] = Inr []"
| "promise_all (Inl e # rs) = Inl e"
| "promise_all (Inr x # rs) = (case promise_all rs of Inl e \<Rightarrow> Inl e | Inr xs \<Rightarrow> Inr (x # xs))"

subsection \<open>The tables\<close>

record call_recording =
  file_name :: string
  storage_path :: "string option"
  phone_number :: "string option"
  status :: string
  error_reason :: "string option"
  chunk_count :: "nat option"
  processed_at :: "string option"

record transcript_row =
  transcript_call_id :: string
  transcript_text :: string
  transcript_length :: nat

record classification_row =
  classification_call_id :: string
  classified :: classification

record rag_chunk =
  chunk_text :: string
  chunk_embedding :: "embedding option"
  chunk_source_type :: string
  chunk_source_id :: string
  chunk_phone_number :: "string option"
  chunk_index :: "nat option"
  chunk_created_at :: "string option"

record database =
  call_recordings :: "string \<rightharpoonup> call_recording"
  call_transcripts :: "transcript_row list"
  call_classifications :: "classification_row list"
  rag_chunks :: "rag_chunk list"
  phone_call_mapping :: "(string \<times> string) list"

text \<open>
  \<open>supabase.from('call_recordings').update(...).eq('id', callId)\<close>: the row with that
  id, when there is one, is changed. The routes do not look at the outcome of their status
  updates; the store is taken to apply each of them.
\<close>

definition update_recording ::
  "string \<Rightarrow> (call_recording \<Rightarrow> call_recording) \<Rightarrow> database \<Rightarrow> database" where
  "update_recording callId change db =
     (case call_recordings db callId of
        None \<Rightarrow> db
      | Some r \<Rightarrow> db\<lparr>call_recordings := (call_recordings db)(callId \<mapsto> change r)\<rparr>)"

text \<open>
  The provider calls of a run, in order: speech-to-text, the classifier, the chunker, one
  embedding request for a chunk, and a \<open>setTimeout\<close> pause between embedding batches.
\<close>

datatype provider_call = Whisper | Classifier | ChunkText | EmbedText string | Pause nat


section \<open>Ingestion by the polling worker (src/app/api/process-calls-worker/route.ts)\<close>

text \<open>
  What the collaborators of a call route do in a run: the speech-to-text provider, the chat
  provider and \<open>JSON.parse\<close>, whether the inserts of the transcript, of the
  classification and of the chunks are refused, \<open>chunkText\<close> and \<open>embedText\<close> of
  \<open>src/lib\<close> (not among the sources; \<open>chunkText\<close> is called with or without a
  length; an embedding that is missing or not an array is \<open>None\<close>), and the clock.
\<close>

record collaborators =
  whisper :: "audio \<Rightarrow> string \<Rightarrow> thrown + transcription"
  classifier :: "string \<Rightarrow> thrown + string option"
  json_parse :: "string \<Rightarrow> thrown + json"
  transcript_insert_error :: "pg_error option"
  classification_insert_error :: "pg_error option"
  chunker :: "string \<Rightarrow> nat option \<Rightarrow> thrown + string list"
  embedder :: "string \<Rightarrow> thrown + embedding option"
  chunk_insert_error :: "pg_error option"
  now :: string
  pg_instanceof_Error :: bool

text \<open>
  The worker, in addition, reads the call record (the read may fail) and downloads the
  audio from storage by its path.
\<close>

record worker_world = collaborators +
  fetch_error :: "pg_error option"
  download :: "string option \<Rightarrow> audio pg_result"

text \<open>The status chosen under \<open>// Determine final status\<close> in the worker.\<close>

definition worker_final_status :: "classification \<Rightarrow> string" where
  "worker_final_status c =
     (if js_truthy (isBlank c) then ''blank''
      else if js_truthy (isSpam c) then ''spam''
      else if js_truthy (is11zaRelated c) then ''11za_related''
      else ''irrelevant'')"

text \<open>
  The inner \<open>try\<close> block, entered for status \<open>11za_related\<close>. The third component
  says whether the block ran to its end; otherwise something was thrown in it and the
  \<open>catch\<close> sets the final status to \<open>failed\<close>. (\<open>promise_all\<close> yields as many
  embeddings as there are chunks, so \<open>embeddings[index]\<close> is always there.)
\<close>

definition worker_chunking ::
  "worker_world \<Rightarrow> string \<Rightarrow> call_recording \<Rightarrow> string \<Rightarrow> database
     \<Rightarrow> database \<times> provider_call list \<times> bool" where
  "worker_chunking w callId callRecord transcript db =
     (let db1 = update_recording callId (\<lambda>r. r\<lparr>status := ''chunking''\<rparr>) db in
      case chunker w transcript None of
        Inl e \<Rightarrow> (db1, [ChunkText], False)
      | Inr chunks \<Rightarrow>
          (let calls = ChunkText # map EmbedText chunks in
           case promise_all (map (embedder w) chunks) of
             Inl e \<Rightarrow> (db1, calls, False)
           | Inr embeddings \<Rightarrow>
               (let chunkInserts =
                      map (\<lambda>(index, chunk).
                             \<lparr>chunk_text = chunk,
                              chunk_embedding = embeddings ! index,
                              chunk_source_type = ''call'',
                              chunk_source_id = callId,
                              chunk_phone_number = phone_number callRecord,
                              chunk_index = Some index,
                              chunk_created_at = Some (now w)\<rparr>)
                          (enumerate 0 chunks)
                in case chunk_insert_error w of
                     Some chunkError \<Rightarrow> (db1, calls, False)
                   | None \<Rightarrow>
                       (let db2 = db1\<lparr>rag_chunks := rag_chunks db1 @ chunkInserts\<rparr>;
                            db3 = update_recording callId
                                    (\<lambda>r. r\<lparr>chunk_count := Some (length chunks)\<rparr>) db2
                        in (db3, calls, True)))))"

text \<open>
  The outer \<open>try\<close> block of \<open>processCall\<close>: the database and the provider calls at the
  point where the block ended, and what was thrown, if anything was.
\<close>

definition processCall_try ::
  "worker_world \<Rightarrow> string \<Rightarrow> database \<Rightarrow> database \<times> provider_call list \<times> thrown option" where
  "processCall_try w callId db =
     (case (if fetch_error w = None then call_recordings db callId else None) of
        None \<Rightarrow> (db, [], Some (Error (''Call record not found: '' @ callId)))
      | Some callRecord \<Rightarrow>
          (let db1 = update_recording callId (\<lambda>r. r\<lparr>status := ''transcribing''\<rparr>) db in
           case download w (storage_path callRecord) of
             Inl downloadError \<Rightarrow> (db1, [], Some (Error ''Failed to download audio file''))
           | Inr audioBuffer \<Rightarrow>
               (case transcribeAudio (whisper w) audioBuffer (file_name callRecord) of
                  Inl e \<Rightarrow> (db1, [Whisper], Some e)
                | Inr transcript \<Rightarrow>
                    (let db2 = update_recording callId
                                 (\<lambda>r. r\<lparr>status := ''classifying''\<rparr>) db1;
                         classification =
                           classifyTranscript (classifier w) (json_parse w) transcript;
                         db3 = (if transcript_insert_error w = None
                                then db2\<lparr>call_transcripts := call_transcripts db2 @
                                       [\<lparr>transcript_call_id = callId,
                                         transcript_text = transcript,
                                         transcript_length = length transcript\<rparr>]\<rparr>
                                else db2);
                         db4 = (if classification_insert_error w = None
                                then db3\<lparr>call_classifications := call_classifications db3 @
                                       [\<lparr>classification_call_id = callId,
                                         classified = classification\<rparr>]\<rparr>
                                else db3);
                         finalStatus = worker_final_status classification
                     in if finalStatus = ''11za_related'' then
                          (case worker_chunking w callId callRecord transcript db4 of
                             (db5, calls, completed) \<Rightarrow>
                               (update_recording callId
                                  (\<lambda>r. r\<lparr>status := (if completed then finalStatus
                                                       else ''failed''),
                                          processed_at := Some (now w)\<rparr>) db5,
                                [Whisper, Classifier] @ calls, None))
                        else
                          (update_recording callId
                             (\<lambda>r. r\<lparr>status := finalStatus,
                                     processed_at := Some (now w)\<rparr>) db4,
                           [Whisper, Classifier], None)))))"

text \<open>\<open>processCall\<close>: the \<open>try\<close> block, and the \<open>catch\<close> block when it threw.\<close>

definition processCall ::
  "worker_world \<Rightarrow> string \<Rightarrow> database \<Rightarrow> database \<times> provider_call list" where
  "processCall w callId db =
     (case processCall_try w callId db of
        (db', calls, None) \<Rightarrow> (db', calls)
      | (db', calls, Some error) \<Rightarrow>
          (update_recording callId
             (\<lambda>r. r\<lparr>status := ''failed'',
                     error_reason := Some (message_of (pg_instanceof_Error w) error),
                     processed_at := Some (now w)\<rparr>) db',
           calls))"


section \<open>Ingestion by the upload route (src/app/api/process-call/route.ts)\<close>

record upload =
  upload_name :: string
  upload_type :: string
  upload_size :: nat
  upload_bytes :: audio

record form_data =
  form_file :: "upload option"
  form_phone_number :: "string option"

text \<open>
  The upload route, in addition to the shared collaborators, checks that the table exists,
  parses the request's form (which may throw), inserts the call record (the store answers
  with the new row's id) and inserts the phone-to-call mapping.
\<close>

record upload_world = collaborators +
  table_check_error :: "pg_error option"
  form :: "thrown + form_data"
  recording_insert :: "string pg_result"
  mapping_insert_error :: "pg_error option"

record processed_body =
  body_message :: string
  body_call_id :: string
  body_status :: string
  body_transcript_length :: nat
  body_chunks_created :: nat
  body_phone_number :: string

datatype response_body = ErrorBody string | ProcessedBody processed_body

record http_response =
  http_status :: nat
  body :: response_body

definition missing_table :: string where
  "missing_table =
     ''relation '' @ [CHR 0x22] @ ''public.call_recordings'' @ [CHR 0x22] @ '' does not exist''"

definition migration_required :: string where
  "migration_required =
     ''Database migration required. Please run the migration SQL to create call recording tables.''"

definition allowedTypes :: "string list" where
  "allowedTypes = [''audio/mpeg'', ''audio/mp3'', ''audio/wav'', ''audio/ogg'', ''audio/webm'']"

text \<open>The status chosen under \<open>// 6) Determine final status\<close> in the upload route.\<close>

definition upload_final_status :: "classification \<Rightarrow> string" where
  "upload_final_status c =
     (if js_truthy (isBlank c) then ''blank''
      else if js_truthy (isSpam c) then ''spam''
      else if js_truthy (is11zaRelated c) then ''11za_related''
      else ''approved'')"

text \<open>
  A natural number as string concatenation prints it: its decimal digits, the most
  significant first.
\<close>

definition digit_char :: "nat \<Rightarrow> char" where
  "digit_char d = char_of (48 + d)"

fun decimal :: "nat \<Rightarrow> string" where
  "decimal n =
     (if 10 \<le> n then decimal (n div 10) @ [digit_char (n mod 10)] else [digit_char n])"

text \<open>
  The inner \<open>for (let j = 0; j < batch.length; j++)\<close> loop over a batch and its
  embeddings: a missing embedding throws, otherwise a row is pushed.
\<close>

fun batch_rows ::
  "string \<Rightarrow> nat \<Rightarrow> (string \<times> embedding option) list \<Rightarrow> nat \<Rightarrow> thrown + rag_chunk list" where
  "batch_rows callId i [] j = Inr []"
| "batch_rows callId i ((piece, embedding) # rest) j =
     (case embedding of
        None \<Rightarrow>
          Inl (Error (''Failed to generate embedding for chunk '' @ decimal (i + j + 1)))
      | Some e \<Rightarrow>
          (case batch_rows callId i rest (j + 1) of
             Inl err \<Rightarrow> Inl err
           | Inr rows \<Rightarrow>
               Inr (\<lparr>chunk_text = piece, chunk_embedding = Some e,
                     chunk_source_type = ''call'', chunk_source_id = callId,
                     chunk_phone_number = None, chunk_index = None,
                     chunk_created_at = None\<rparr> # rows)))"

text \<open>
  The \<open>for (let i = 0; i < chunks.length; i += BATCH_SIZE)\<close> loop, with
  \<open>BATCH_SIZE = 10\<close> and \<open>BATCH_DELAY_MS = 1000\<close>.
\<close>

function embed_batches ::
  "(string \<Rightarrow> thrown + embedding option) \<Rightarrow> string \<Rightarrow> string list \<Rightarrow> nat
     \<Rightarrow> provider_call list \<times> (thrown + rag_chunk list)" where
  "embed_batches embedOne callId chunks i =
     (if i < length chunks then
        (let batch = take 10 (drop i chunks);
             calls = map EmbedText batch
         in case promise_all (map embedOne batch) of
              Inl e \<Rightarrow> (calls, Inl e)
            | Inr embeddings \<Rightarrow>
                (case batch_rows callId i (zip batch embeddings) 0 of
                   Inl e \<Rightarrow> (calls, Inl e)
                 | Inr rows \<Rightarrow>
                     (let pause = (if i + 10 < length chunks then [Pause 1000] else []) in
                      case embed_batches embedOne callId chunks (i + 10) of
                        (calls', Inl e) \<Rightarrow> (calls @ pause @ calls', Inl e)
                      | (calls', Inr rows') \<Rightarrow> (calls @ pause @ calls', Inr (rows @ rows')))))
      else ([], Inr []))"
  by pat_completeness auto
termination
  by (relation "measure (\<lambda>(embedOne, callId, chunks, i). length chunks - i)") auto

text \<open>
  Step 7 of the route, entered for status \<open>11za_related\<close>: the database and the provider
  calls when the step ended, and what it threw, if it threw.
\<close>

definition upload_rag ::
  "upload_world \<Rightarrow> string \<Rightarrow> string \<Rightarrow> string \<Rightarrow> database
     \<Rightarrow> database \<times> provider_call list \<times> thrown option" where
  "upload_rag w callId phoneNumber transcript db =
     (case chunker w transcript (Some 1500) of
        Inl e \<Rightarrow> (db, [ChunkText], Some e)
      | Inr produced \<Rightarrow>
          (let chunks = filter (\<lambda>c. length (js_trim c) > 0) produced in
           if length chunks = 0
           then (db, [ChunkText], Some (Error ''No text chunks produced from transcript''))
           else
             (case embed_batches (embedder w) callId chunks 0 of
                (calls, Inl e) \<Rightarrow> (db, ChunkText # calls, Some e)
              | (calls, Inr rows) \<Rightarrow>
                  (case chunk_insert_error w of
                     Some insertError \<Rightarrow> (db, ChunkText # calls, Some (PgThrown insertError))
                   | None \<Rightarrow>
                       (let db1 = db\<lparr>rag_chunks := rag_chunks db @ rows\<rparr> in
                        case mapping_insert_error w of
                          Some mappingError \<Rightarrow>
                            (db1, ChunkText # calls, Some (PgThrown mappingError))
                        | None \<Rightarrow>
                            (db1\<lparr>phone_call_mapping :=
                                    phone_call_mapping db1 @ [(phoneNumber, callId)]\<rparr>,
                             ChunkText # calls, None))))))"

text \<open>
  The \<open>try\<close> block of \<open>POST\<close>, from the insert of the call record on: the database and
  provider calls when it ended, and the response it returned (\<open>Inr\<close>) or what it threw
  (\<open>Inl\<close>). \<open>callId\<close> has been assigned by then.
\<close>

definition POST_process ::
  "upload_world \<Rightarrow> upload \<Rightarrow> string \<Rightarrow> string \<Rightarrow> database
     \<Rightarrow> database \<times> provider_call list \<times> (thrown + http_response)" where
  "POST_process w file phoneNumber callId db =
     (case transcribeAudio (whisper w) (upload_bytes file) (upload_name file) of
        Inl e \<Rightarrow> (db, [Whisper], Inl e)
      | Inr transcript \<Rightarrow>
          (let db1 = update_recording callId (\<lambda>r. r\<lparr>status := ''transcribing''\<rparr>) db in
           case transcript_insert_error w of
             Some transcriptError \<Rightarrow> (db1, [Whisper], Inl (PgThrown transcriptError))
           | None \<Rightarrow>
               (let db2 = db1\<lparr>call_transcripts := call_transcripts db1 @
                                [\<lparr>transcript_call_id = callId,
                                  transcript_text = transcript,
                                  transcript_length = length transcript\<rparr>]\<rparr>;
                    classification =
                      classifyTranscript (classifier w) (json_parse w) transcript
                in case classification_insert_error w of
                     Some classificationError \<Rightarrow>
                       (db2, [Whisper, Classifier], Inl (PgThrown classificationError))
                   | None \<Rightarrow>
                       (let db3 = db2\<lparr>call_classifications := call_classifications db2 @
                                        [\<lparr>classification_call_id = callId,
                                          classified = classification\<rparr>]\<rparr>;
                            finalStatus = upload_final_status classification;
                            respond = (\<lambda>db'.
                              (update_recording callId
                                 (\<lambda>r. r\<lparr>status := finalStatus,
                                         processed_at := Some (now w)\<rparr>) db',
                               \<lparr>http_status = 200,
                                body = ProcessedBody
                                  \<lparr>body_message = ''Call processed successfully'',
                                   body_call_id = callId,
                                   body_status = finalStatus,
                                   body_transcript_length = length transcript,
                                   body_chunks_created =
                                     (if finalStatus = ''11za_related''
                                      then (length transcript + 1499) div 1500 else 0),
                                   body_phone_number = phoneNumber\<rparr>\<rparr>))
                        in if finalStatus = ''11za_related'' then
                             (case upload_rag w callId phoneNumber transcript db3 of
                                (db4, calls, Some e) \<Rightarrow>
                                  (db4, [Whisper, Classifier] @ calls, Inl e)
                              | (db4, calls, None) \<Rightarrow>
                                  (fst (respond db4), [Whisper, Classifier] @ calls,
                                   Inr (snd (respond db4))))
                           else (fst (respond db3), [Whisper, Classifier],
                                 Inr (snd (respond db3)))))))"

text \<open>
  The whole \<open>try\<close> block; the third component is the value of \<open>callId\<close> when the block
  ended.
\<close>

definition POST_try ::
  "upload_world \<Rightarrow> database
     \<Rightarrow> database \<times> provider_call list \<times> string option \<times> (thrown + http_response)" where
  "POST_try w db =
     (if (case table_check_error w of
            None \<Rightarrow> False
          | Some tableCheckError \<Rightarrow> js_includes (message tableCheckError) missing_table)
      then (db, [], None, Inr \<lparr>http_status = 400, body = ErrorBody migration_required\<rparr>)
      else
        (case form w of
           Inl e \<Rightarrow> (db, [], None, Inl e)
         | Inr f \<Rightarrow>
             (case form_file f of
                None \<Rightarrow>
                  (db, [], None,
                   Inr \<lparr>http_status = 400, body = ErrorBody ''No audio file uploaded''\<rparr>)
              | Some file \<Rightarrow>
                  (if \<not> truthy (form_phone_number f) then
                     (db, [], None,
                      Inr \<lparr>http_status = 400, body = ErrorBody ''Phone number is required''\<rparr>)
                   else if upload_type file \<notin> set allowedTypes then
                     (db, [], None,
                      Inr \<lparr>http_status = 400,
                           body = ErrorBody
                             ''Unsupported file type. Please upload MP3, WAV, or OGG files.''\<rparr>)
                   else
                     (let phoneNumber = the (form_phone_number f) in
                      case recording_insert w of
                        Inl callError \<Rightarrow>
                          (if js_includes (message callError) missing_table
                           then (db, [], None,
                                 Inr \<lparr>http_status = 500,
                                      body = ErrorBody migration_required\<rparr>)
                           else (db, [], None, Inl (PgThrown callError)))
                      | Inr callId \<Rightarrow>
                          (let db0 = db\<lparr>call_recordings := (call_recordings db)(callId \<mapsto>
                                            \<lparr>file_name = upload_name file,
                                             storage_path = None,
                                             phone_number = Some phoneNumber,
                                             status = ''uploaded'',
                                             error_reason = None,
                                             chunk_count = None,
                                             processed_at = None\<rparr>)\<rparr>
                           in case POST_process w file phoneNumber callId db0 of
                                (db', calls, r) \<Rightarrow> (db', calls, Some callId, r)))))))"

text \<open>\<open>POST\<close>: the \<open>try\<close> block, and the \<open>catch\<close> block when it threw.\<close>

definition POST :: "upload_world \<Rightarrow> database \<Rightarrow> database \<times> provider_call list \<times> http_response" where
  "POST w db =
     (case POST_try w db of
        (db', calls, callId, Inr response) \<Rightarrow> (db', calls, response)
      | (db', calls, callId, Inl err) \<Rightarrow>
          ((if truthy callId
            then update_recording (the callId) (\<lambda>r. r\<lparr>status := ''failed''\<rparr>) db'
            else db'),
           calls,
           \<lparr>http_status = 500,
            body = ErrorBody (message_of (pg_instanceof_Error w) err)\<rparr>))"


section \<open>Reading a unit, and units for concrete runs\<close>

text \<open>The status and the error reason of a unit, when the table has it.\<close>

definition status_of :: "database \<Rightarrow> string \<Rightarrow> string option" where
  "status_of db callId = map_option status (call_recordings db callId)"

definition error_reason_of :: "database \<Rightarrow> string \<Rightarrow> string option option" where
  "error_reason_of db callId = map_option error_reason (call_recordings db callId)"

text \<open>The content chunks of a unit.\<close>

definition chunks_of :: "database \<Rightarrow> string \<Rightarrow> rag_chunk list" where
  "chunks_of db callId = filter (\<lambda>c. chunk_source_id c = callId) (rag_chunks db)"

text \<open>The three flags of a classification, as the \<open>if\<close> chains of the routes read them.\<close>

definition flagged_blank :: "classification \<Rightarrow> bool" where
  "flagged_blank c = js_truthy (isBlank c)"

definition flagged_spam :: "classification \<Rightarrow> bool" where
  "flagged_spam c = js_truthy (isSpam c)"

definition flagged_relevant :: "classification \<Rightarrow> bool" where
  "flagged_relevant c = js_truthy (is11zaRelated c)"

definition example_recording :: call_recording where
  "example_recording =
     \<lparr>file_name = ''call.mp3'', storage_path = Some ''calls/call.mp3'',
      phone_number = Some ''+15550100'', status = ''uploaded'', error_reason = None,
      chunk_count = None, processed_at = None\<rparr>"

definition example_db :: database where
  "example_db =
     \<lparr>call_recordings = [''call-1'' \<mapsto> example_recording], call_transcripts = [],
      call_classifications = [], rag_chunks = [], phone_call_mapping = []\<rparr>"

text \<open>
  Collaborators that all work, except that speech-to-text and the chat provider do as
  given, and \<open>JSON.parse\<close> yields the given value.
\<close>

definition example_worker ::
  "(thrown + transcription) \<Rightarrow> (thrown + string option) \<Rightarrow> json \<Rightarrow> worker_world" where
  "example_worker heard answered parsed =
     \<lparr>whisper = (\<lambda>audioBuffer fileName. heard),
      classifier = (\<lambda>transcript. answered),
      json_parse = (\<lambda>content. Inr parsed),
      transcript_insert_error = None,
      classification_insert_error = None,
      chunker = (\<lambda>transcript maxLen. Inr [transcript]),
      embedder = (\<lambda>piece. Inr (Some [1/2, 1/4])),
      chunk_insert_error = None,
      now = ''2024-01-01T00:00:00.000Z'',
      pg_instanceof_Error = False,
      fetch_error = None,
      download = (\<lambda>path. Inr [73, 68, 51])\<rparr>"

definition example_upload ::
  "(thrown + transcription) \<Rightarrow> (thrown + string option) \<Rightarrow> json \<Rightarrow> upload_world" where
  "example_upload heard answered parsed =
     \<lparr>whisper = (\<lambda>audioBuffer fileName. heard),
      classifier = (\<lambda>transcript. answered),
      json_parse = (\<lambda>content. Inr parsed),
      transcript_insert_error = None,
      classification_insert_error = None,
      chunker = (\<lambda>transcript maxLen. Inr [transcript]),
      embedder = (\<lambda>piece. Inr (Some [1/2, 1/4])),
      chunk_insert_error = None,
      now = ''2024-01-01T00:00:00.000Z'',
      pg_instanceof_Error = False,
      table_check_error = None,
      form = Inr \<lparr>form_file = Some \<lparr>upload_name = ''call.mp3'', upload_type = ''audio/mpeg'',
                                      upload_size = 3, upload_bytes = [73, 68, 51]\<rparr>,
                  form_phone_number = Some ''+15550100''\<rparr>,
      recording_insert = Inr ''call-2'',
      mapping_insert_error = None\<rparr>"

text \<open>A parsed classifier answer with all three flags false.\<close>

definition unrelated_answer :: json where
  "unrelated_answer =
     JObj [(''isBlank'', JBool False), (''isSpam'', JBool False),
           (''is11zaRelated'', JBool False), (''blankConfidence'', JNum (1/10)),
           (''spamConfidence'', JNum (1/10)), (''relevanceConfidence'', JNum (1/5))]"


section \<open>Response orchestrator (generateAutoResponse, src/unnamed/part_000)\<close>

record mapping_details =
  system_prompt :: "string option"
  intent :: "string option"
  auth_token :: "string option"
  origin :: "string option"

text \<open>A row of \<open>whatsapp_messages\<close>, with the columns the orchestrator reads or orders by.\<close>

record message_row =
  content_text :: "string option"
  event_type :: string
  from_number :: string
  to_number :: string
  received_at :: int

record chat_message =
  role :: string
  content :: string

record send_result =
  send_success :: bool
  send_error :: "string option"

record AutoResponseResult =
  ar_success :: bool
  ar_response :: "string option"
  ar_error :: "string option"
  ar_noDocuments :: "bool option"
  ar_sent :: "bool option"

text \<open>
  The calls that \<open>generateAutoResponse\<close> makes to its collaborators, in order. A lookup
  of the mapping directory is one entry, whatever number of queries it sends.
\<close>

datatype remote_call =
    DataSourceLookup string
  | MappingDetailsQuery string
  | QueryEmbedding string
  | ShopifyStoreLookup string
  | ShopifySearch string nat
  | FilesLookup string
  | CallsLookup string
  | DocumentSearch rpc_args
  | HistoryQuery string
  | ChatCompletion "chat_message list"
  | SendWhatsApp string string string string
  | MarkResponse string bool
  | StoreResponse string string string

text \<open>
  What the collaborators do in a run. The stores of the mapping directory are as in that
  section. \<open>whatsapp_messages\<close> is the content of the table, or the error of the
  history query. The two texts of \<open>baseRules\<close> are literals of the source and are taken
  as they are.
\<close>

record orchestrator_world =
  data_source_store :: "string \<Rightarrow> nat \<Rightarrow> data_source_row pg_result"
  mapping_details_store :: "string \<Rightarrow> nat \<Rightarrow> mapping_details list pg_result"
  shopify_store_store :: "string \<Rightarrow> nat \<Rightarrow> shopify_store_row pg_result"
  file_mapping_store :: "string \<Rightarrow> file_mapping_row list pg_result"
  call_mapping_store :: "string \<Rightarrow> call_mapping_row list pg_result"
  query_embedder :: "string \<Rightarrow> thrown + embedding option"
  document_index :: match_documents
  shopify_index :: match_shopify_chunks
  whatsapp_messages :: "message_row list pg_result"
  chat_completion :: "chat_message list \<Rightarrow> thrown + string option"
  sendWhatsAppMessage :: "string \<Rightarrow> string \<Rightarrow> string \<Rightarrow> string \<Rightarrow> send_result"
  shopify_rules :: string
  document_rules :: string
  store_errors_are_Errors :: bool

text \<open>
  The history query: the rows that involve the number, ordered by \<open>received_at\<close>
  ascending, limited to 20 rows. (Rows with equal \<open>received_at\<close> are kept in table order
  here; the store does not fix their order.)
\<close>

definition history_query :: "message_row list \<Rightarrow> string \<Rightarrow> message_row list" where
  "history_query table fromNumber =
     take 20 (sort_key received_at
                (filter (\<lambda>m. from_number m = fromNumber \<or> to_number m = fromNumber) table))"

text \<open>\<open>// Build conversation history\<close>: the filter and the map over \<open>historyRows || []\<close>.\<close>

definition build_history :: "message_row list option \<Rightarrow> chat_message list" where
  "build_history historyRows =
     map (\<lambda>m. \<lparr>role = (if event_type m = ''MoMessage'' then ''user'' else ''assistant''),
                 content = the (content_text m)\<rparr>)
       (filter (\<lambda>m. truthy (content_text m)
                     \<and> (event_type m = ''MoMessage'' \<or> event_type m = ''MtMessage''))
          (case historyRows of None \<Rightarrow> [] | Some rows \<Rightarrow> rows))"

text \<open>\<open>xs.slice(-n)\<close>: the last \<open>n\<close> elements, or all when there are fewer.\<close>

definition slice_last :: "nat \<Rightarrow> 'a list \<Rightarrow> 'a list" where
  "slice_last n xs = drop (length xs - n) xs"

text \<open>\<open>xs.join(sep)\<close>.\<close>

fun js_join :: "string \<Rightarrow> string list \<Rightarrow> string" where
  "js_join sep [] = []"
| "js_join sep [x] = x"
| "js_join sep (x # y # ys) = x @ sep @ js_join sep (y # ys)"

definition newline :: string where
  "newline = [CHR 0x0A]"

text \<open>The \<open>messages\<close> array handed to the generation provider.\<close>

definition prompt_messages ::
  "string \<Rightarrow> string \<Rightarrow> chat_message list \<Rightarrow> string \<Rightarrow> chat_message list" where
  "prompt_messages systemPrompt contextText history messageText =
     \<lparr>role = ''system'',
      content = systemPrompt @ newline @ newline @ ''CONTEXT:'' @ newline @
                (if contextText \<noteq> [] then contextText
                 else ''No relevant context found in the documents.'')\<rparr>
     # slice_last 10 history
     @ [\<lparr>role = ''user'', content = messageText\<rparr>]"

datatype retrieved = FromDocuments match_row | FromShopify shopify_match

fun retrieved_chunk :: "retrieved \<Rightarrow> string" where
  "retrieved_chunk (FromDocuments m) = chunk m"
| "retrieved_chunk (FromShopify m) = sm_chunk m"

definition failure :: "string \<Rightarrow> AutoResponseResult" where
  "failure msg =
     \<lparr>ar_success = False, ar_response = None, ar_error = Some msg,
      ar_noDocuments = None, ar_sent = None\<rparr>"

definition no_documents :: "string \<Rightarrow> AutoResponseResult" where
  "no_documents msg =
     \<lparr>ar_success = False, ar_response = None, ar_error = Some msg,
      ar_noDocuments = Some True, ar_sent = None\<rparr>"

text \<open>
  Step 3, \<open>// Retrieve relevant chunks based on data source\<close>: the calls made, and what
  the step threw (\<open>Inl\<close>), or the result it returned early (\<open>Inr (Inl _)\<close>), or the
  matches (\<open>Inr (Inr _)\<close>).
\<close>

definition retrieve_for_source ::
  "orchestrator_world \<Rightarrow> string \<Rightarrow> string \<Rightarrow> embedding
     \<Rightarrow> remote_call list \<times> (thrown + (AutoResponseResult + retrieved list))" where
  "retrieve_for_source w dataSource toNumber queryEmbedding =
     (if dataSource = ''shopify'' then
        (case returned (getShopifyStoreForPhoneNumber (shopify_store_store w) toNumber) of
           None \<Rightarrow>
             ([ShopifyStoreLookup toNumber],
              Inr (Inl (no_documents ''No Shopify store mapped to this business number'')))
         | Some shopifyStoreId \<Rightarrow>
             (case retrieveRelevantShopifyChunks (shopify_index w) queryEmbedding
                     shopifyStoreId 5 of
                (requests, Inl e) \<Rightarrow>
                  (ShopifyStoreLookup toNumber # map (\<lambda>(s, n). ShopifySearch s n) requests,
                   Inl e)
              | (requests, Inr found) \<Rightarrow>
                  (ShopifyStoreLookup toNumber # map (\<lambda>(s, n). ShopifySearch s n) requests,
                   Inr (Inr (map FromShopify found)))))
      else
        (let fileIds = returned (getFilesForPhoneNumber (file_mapping_store w) toNumber);
             callIds = returned (getCallsForPhoneNumber (call_mapping_store w) toNumber)
         in if length fileIds = 0 \<and> length callIds = 0 then
              ([FilesLookup toNumber, CallsLookup toNumber],
               Inr (Inl (no_documents
                           ''No documents or calls mapped to this business number'')))
            else
              (case retrieveRelevantChunksForPhone (document_index w) queryEmbedding
                      fileIds callIds 5 of
                 (requests, Inl e) \<Rightarrow>
                   ([FilesLookup toNumber, CallsLookup toNumber] @ map DocumentSearch requests,
                    Inl e)
               | (requests, Inr found) \<Rightarrow>
                   ([FilesLookup toNumber, CallsLookup toNumber] @ map DocumentSearch requests,
                    Inr (Inr (map FromDocuments found))))))"

text \<open>Steps 4 to 7: history, prompt, generation, delivery and bookkeeping.\<close>

definition respond_with ::
  "orchestrator_world \<Rightarrow> string \<Rightarrow> string option \<Rightarrow> string \<Rightarrow> string \<Rightarrow> retrieved list
     \<Rightarrow> string \<Rightarrow> string \<Rightarrow> string \<Rightarrow> string
     \<Rightarrow> remote_call list \<times> (thrown + AutoResponseResult)" where
  "respond_with w dataSource customSystemPrompt authToken originUrl matches
       fromNumber toNumber messageText messageId =
     (let contextText = js_join (newline @ newline) (map retrieved_chunk matches);
          historyRows = (case whatsapp_messages w of
                           Inl e \<Rightarrow> None
                         | Inr table \<Rightarrow> Some (history_query table fromNumber));
          history = build_history historyRows;
          baseRules = (if dataSource = ''shopify'' then shopify_rules w else document_rules w);
          systemPrompt =
            (if truthy customSystemPrompt
             then the customSystemPrompt @ newline @ newline @ baseRules
             else ''You are a helpful ''
                  @ (if dataSource = ''shopify'' then ''Shopify store'' else ''WhatsApp'')
                  @ '' assistant.'' @ newline @ newline @ baseRules);
          messages = prompt_messages systemPrompt contextText history messageText;
          before = [HistoryQuery fromNumber, ChatCompletion messages]
      in case chat_completion w messages of
           Inl e \<Rightarrow> (before, Inl e)
         | Inr generated \<Rightarrow>
             (if \<not> truthy generated
              then (before, Inr (failure ''No response generated from LLM''))
              else
                (let reply = the generated;
                     sendResult = sendWhatsAppMessage w fromNumber reply authToken originUrl;
                     sending = before @ [SendWhatsApp fromNumber reply authToken originUrl]
                 in if \<not> send_success sendResult then
                      (sending @ [MarkResponse messageId False],
                       Inr \<lparr>ar_success = False, ar_response = Some reply,
                            ar_error = Some (''Generated response but failed to send: ''
                              @ (case send_error sendResult of
                                   None \<Rightarrow> ''undefined'' | Some m \<Rightarrow> m)),
                            ar_noDocuments = None, ar_sent = Some False\<rparr>)
                    else
                      (sending @ [StoreResponse toNumber fromNumber reply,
                                  MarkResponse messageId True],
                       Inr \<lparr>ar_success = True, ar_response = Some reply, ar_error = None,
                            ar_noDocuments = None, ar_sent = Some True\<rparr>))))"

text \<open>
  What \<open>generateAutoResponse\<close> does once the data source is known to be \<open>dataSource\<close>:
  steps 1.5 to 7 inside the \<open>try\<close> block.
\<close>

definition continue_with_source ::
  "orchestrator_world \<Rightarrow> string \<Rightarrow> string \<Rightarrow> string \<Rightarrow> string \<Rightarrow> string
     \<Rightarrow> remote_call list \<times> (thrown + AutoResponseResult)" where
  "continue_with_source w dataSource fromNumber toNumber messageText messageId =
     (case snd (retrySupabaseQuery (mapping_details_store w toNumber) 3) of
        Inl mappingError \<Rightarrow>
          ([MappingDetailsQuery toNumber],
           Inr (failure ''Failed to fetch phone mapping details''))
      | Inr phoneMappings \<Rightarrow>
          (if length phoneMappings = 0 then
             ([MappingDetailsQuery toNumber],
              Inr (failure ''Failed to fetch phone mapping details''))
           else
             (let customSystemPrompt = system_prompt (hd phoneMappings);
                  authToken = auth_token (hd phoneMappings);
                  originUrl = origin (hd phoneMappings)
              in if \<not> truthy authToken \<or> \<not> truthy originUrl then
                   ([MappingDetailsQuery toNumber],
                    Inr (failure (''No WhatsApp API credentials found. ''
                           @ ''Please set credentials in the Configuration tab.'')))
                 else
                   (case query_embedder w messageText of
                      Inl e \<Rightarrow>
                        ([MappingDetailsQuery toNumber, QueryEmbedding messageText], Inl e)
                    | Inr None \<Rightarrow>
                        ([MappingDetailsQuery toNumber, QueryEmbedding messageText],
                         Inr (failure ''Failed to generate embedding for message''))
                    | Inr (Some queryEmbedding) \<Rightarrow>
                        (case retrieve_for_source w dataSource toNumber queryEmbedding of
                           (calls, Inl e) \<Rightarrow>
                             ([MappingDetailsQuery toNumber, QueryEmbedding messageText]
                                @ calls, Inl e)
                         | (calls, Inr (Inl early)) \<Rightarrow>
                             ([MappingDetailsQuery toNumber, QueryEmbedding messageText]
                                @ calls, Inr early)
                         | (calls, Inr (Inr matches)) \<Rightarrow>
                             (case respond_with w dataSource customSystemPrompt
                                     (the authToken) (the originUrl) matches
                                     fromNumber toNumber messageText messageId of
                                (calls', r) \<Rightarrow>
                                  ([MappingDetailsQuery toNumber, QueryEmbedding messageText]
                                     @ calls @ calls', r)))))))"

text \<open>\<open>generateAutoResponse\<close>: step 1, the rest of the \<open>try\<close> block, and the \<open>catch\<close>.\<close>

definition generateAutoResponse ::
  "orchestrator_world \<Rightarrow> string \<Rightarrow> string \<Rightarrow> string \<Rightarrow> string
     \<Rightarrow> remote_call list \<times> AutoResponseResult" where
  "generateAutoResponse w fromNumber toNumber messageText messageId =
     (let dataSource = returned (getDataSourceForPhone (data_source_store w) toNumber) in
      if \<not> truthy dataSource then
        ([DataSourceLookup toNumber],
         no_documents ''No data source mapped to this business number'')
      else
        (case continue_with_source w (the dataSource) fromNumber toNumber messageText
                messageId of
           (calls, Inr result) \<Rightarrow> (DataSourceLookup toNumber # calls, result)
         | (calls, Inl e) \<Rightarrow>
             (DataSourceLookup toNumber # calls,
              failure (message_of (store_errors_are_Errors w) e))))"

subsection \<open>A conversation for concrete runs\<close>

text \<open>
  Message number \<open>k\<close> of a conversation between a customer and the business, received
  at time \<open>k\<close>: the customer writes the odd ones, the business answers with the even ones.
\<close>

definition example_message :: "nat \<Rightarrow> message_row" where
  "example_message k =
     \<lparr>content_text = Some (''message '' @ decimal k),
      event_type = (if odd k then ''MoMessage'' else ''MtMessage''),
      from_number = (if odd k then ''+15550111'' else ''+15550100''),
      to_number = (if odd k then ''+15550100'' else ''+15550111''),
      received_at = int k\<rparr>"

text \<open>The table holds messages 1 to 21, the most recent first.\<close>

definition example_conversation :: "message_row list" where
  "example_conversation = map example_message (rev [1 ..< 22])"

text \<open>The calls that belong to the catalog path.\<close>

definition shopify_call :: "remote_call \<Rightarrow> bool" where
  "shopify_call c =
     (case c of ShopifyStoreLookup s \<Rightarrow> True | ShopifySearch s n \<Rightarrow> True | _ \<Rightarrow> False)"

text \<open>
  A business number whose mapping row has no data source set, with credentials, one mapped
  document and the conversation above.
\<close>

definition example_orchestrator :: orchestrator_world where
  "example_orchestrator =
     \<lparr>data_source_store = unset_source_store,
      mapping_details_store =
        (\<lambda>phoneNumber k. Inr [\<lparr>system_prompt = None, intent = None,
                                 auth_token = Some ''token'',
                                 origin = Some ''https://example.org''\<rparr>]),
      shopify_store_store = empty_store,
      file_mapping_store = (\<lambda>phoneNumber. Inr [\<lparr>mapped_file_id = Some ''doc-a''\<rparr>]),
      call_mapping_store = (\<lambda>phoneNumber. Inr []),
      query_embedder = (\<lambda>messageText. Inr (Some [1/2, 1/4])),
      document_index = example_rpc,
      shopify_index = (\<lambda>queryEmbedding storeId limit. Inr []),
      whatsapp_messages = Inr example_conversation,
      chat_completion = (\<lambda>messages. Inr (Some ''We are open from 9 to 5.'')),
      sendWhatsAppMessage =
        (\<lambda>toNumber reply authToken originUrl. \<lparr>send_success = True, send_error = None\<rparr>),
      shopify_rules = ''ROLE: You are a real human sales executive.'',
      document_rules = ''Your ONLY job is to answer questions based strictly on the provided document context.'',
      store_errors_are_Errors = False\<rparr>"


section \<open>Properties of retrieval\<close>

lemma length_js_insert: "length (js_insert cmp x ys) = Suc (length ys)"
  by (induction ys) auto

lemma mset_js_insert: "mset (js_insert cmp x ys) = add_mset x (mset ys)"
  by (induction ys) auto

lemma set_js_insert: "set (js_insert cmp x ys) = insert x (set ys)"
  by (induction ys) auto

lemma js_sort_Cons: "js_sort cmp (x # xs) = js_insert cmp x (js_sort cmp xs)"
  by (simp add: js_sort_def)

lemma mset_js_sort: "mset (js_sort cmp xs) = mset xs"
  by (induction xs) (simp_all add: js_sort_Cons mset_js_insert, simp add: js_sort_def)

lemma length_js_sort: "length (js_sort cmp xs) = length xs"
  using mset_js_sort [of cmp xs] by (metis size_mset)

lemma descending_js_insert:
  "descending ys \<Longrightarrow> descending (js_insert by_similarity x ys)"
  by (induction ys) (auto simp: descending_def set_js_insert by_similarity_def)

lemma descending_js_sort: "descending (js_sort by_similarity xs)"
proof (induction xs)
  case Nil
  show ?case by (simp add: js_sort_def descending_def)
next
  case (Cons x xs)
  then show ?case by (simp add: js_sort_Cons descending_js_insert)
qed

lemma descending_take: "descending xs \<Longrightarrow> descending (take n xs)"
  unfolding descending_def by (rule sorted_wrt_take)

lemma retrieveRelevantChunks_calls:
  "fst (retrieveRelevantChunks rpc q fid limit sts) =
     [\<lparr>query_embedding = q, match_count = limit, target_file = fid, source_types = sts\<rparr>]"
  by (simp add: retrieveRelevantChunks_def Let_def split: sum.splits)

lemma files_loop_ok:
  "\<forall>f \<in> set fileIds. rpc (file_request q limit f) = Inr (rows f) \<Longrightarrow>
   files_loop rpc q limit fileIds acc =
     (map (file_request q limit) fileIds,
      Inr (acc @ concat (map (\<lambda>f. map (with_file_id f) (rows f)) fileIds)))"
  by (induction fileIds arbitrary: acc)
     (auto simp: retrieveRelevantChunks_def file_request_def)

lemma phone_files_loop_ok:
  "\<forall>f \<in> set fileIds. rpc (file_request q limit f) = Inr (rows f) \<Longrightarrow>
   phone_files_loop rpc q limit fileIds acc =
     (map (file_request q limit) fileIds, Inr (acc @ concat (map rows fileIds)))"
  by (induction fileIds arbitrary: acc)
     (auto simp: retrieveRelevantChunks_def file_request_def)

text \<open>
  Whatever the index answers, the requests of the multi-file loop are an initial segment
  of the per-file requests: a failing request ends the loop.
\<close>

lemma files_loop_prefix:
  "prefix (fst (files_loop rpc q limit fileIds acc)) (map (file_request q limit) fileIds)"
proof (induction fileIds arbitrary: acc)
  case Nil
  show ?case by simp
next
  case (Cons f fs)
  obtain calls r where rr: "retrieveRelevantChunks rpc q (Some f) limit [''pdf''] = (calls, r)"
    by (cases "retrieveRelevantChunks rpc q (Some f) limit [''pdf'']")
  with retrieveRelevantChunks_calls [of rpc q "Some f" limit "[''pdf'']"]
  have c: "calls = [file_request q limit f]"
    by (simp add: file_request_def)
  show ?case
  proof (cases r)
    case (Inl e)
    with rr c show ?thesis by simp
  next
    case (Inr chunks)
    obtain calls' r' where
      "files_loop rpc q limit fs (acc @ map (with_file_id f) chunks) = (calls', r')"
      by (cases "files_loop rpc q limit fs (acc @ map (with_file_id f) chunks)")
    with Cons [of "acc @ map (with_file_id f) chunks"] rr c Inr show ?thesis by simp
  qed
qed

lemma from_files_merge:
  assumes many: "2 \<le> length fileIds"
    and ok: "\<forall>f \<in> set fileIds. rpc (file_request q limit f) = Inr (rows f)"
  shows "\<exists>result sorted_all.
           retrieveRelevantChunksFromFiles rpc q fileIds limit =
             (map (file_request q limit) fileIds, Inr result)
         \<and> mset sorted_all = mset (concat (map (\<lambda>f. map (with_file_id f) (rows f)) fileIds))
         \<and> descending sorted_all
         \<and> result = take limit sorted_all
         \<and> descending result
         \<and> length result \<le> limit
         \<and> (length fileIds = 2 \<and> (\<forall>f \<in> set fileIds. length (rows f) = limit)
              \<longrightarrow> length result = limit)"
proof -
  let ?all = "concat (map (\<lambda>f. map (with_file_id f) (rows f)) fileIds)"
  let ?sorted = "js_sort by_similarity ?all"
  have loop: "files_loop rpc q limit fileIds [] = (map (file_request q limit) fileIds, Inr ?all)"
    using files_loop_ok [OF ok, of "[]"] by simp
  have run: "retrieveRelevantChunksFromFiles rpc q fileIds limit =
               (map (file_request q limit) fileIds, Inr (take limit ?sorted))"
  proof -
    from many have "fileIds \<noteq> []" and "length fileIds \<noteq> 1" by auto
    then show ?thesis
      by (simp add: retrieveRelevantChunksFromFiles_def loop slice0_def)
  qed
  have two: "length (take limit ?sorted) = limit"
    if "length fileIds = 2" and "\<forall>f \<in> set fileIds. length (rows f) = limit"
  proof -
    from that(1) obtain a b where ab: "fileIds = [a, b]"
      by (cases fileIds; cases "tl fileIds"; auto)
    with that(2) have "length ?all = limit + limit" by simp
    then show ?thesis by (simp add: length_js_sort)
  qed
  show ?thesis
    using run two mset_js_sort [of by_similarity ?all] descending_js_sort [of ?all]
      descending_take [OF descending_js_sort, of limit ?all]
    by (intro exI [of _ "take limit ?sorted"] exI [of _ ?sorted]) simp
qed

lemma for_phone_merge:
  assumes many: "2 \<le> length fileIds"
    and ok: "\<forall>f \<in> set fileIds. rpc (file_request q limit f) = Inr (rows f)"
  shows "\<exists>result sorted_all.
           retrieveRelevantChunksForPhone rpc q fileIds [] limit =
             (map (file_request q limit) fileIds, Inr result)
         \<and> mset sorted_all = mset (concat (map rows fileIds))
         \<and> descending sorted_all
         \<and> result = take limit sorted_all
         \<and> descending result
         \<and> length result \<le> limit
         \<and> (length fileIds = 2 \<and> (\<forall>f \<in> set fileIds. length (rows f) = limit)
              \<longrightarrow> length result = limit)"
proof -
  let ?all = "concat (map rows fileIds)"
  let ?sorted = "js_sort by_similarity ?all"
  have loop:
    "phone_files_loop rpc q limit fileIds [] = (map (file_request q limit) fileIds, Inr ?all)"
    using phone_files_loop_ok [OF ok, of "[]"] by simp
  have run: "retrieveRelevantChunksForPhone rpc q fileIds [] limit =
               (map (file_request q limit) fileIds, Inr (take limit ?sorted))"
  proof -
    from many have "fileIds \<noteq> []" by auto
    then show ?thesis
      by (simp add: retrieveRelevantChunksForPhone_def loop slice0_def)
  qed
  have two: "length (take limit ?sorted) = limit"
    if "length fileIds = 2" and "\<forall>f \<in> set fileIds. length (rows f) = limit"
  proof -
    from that(1) obtain a b where ab: "fileIds = [a, b]"
      by (cases fileIds; cases "tl fileIds"; auto)
    with that(2) have "length ?all = limit + limit" by simp
    then show ?thesis by (simp add: length_js_sort)
  qed
  show ?thesis
    using run two mset_js_sort [of by_similarity ?all] descending_js_sort [of ?all]
      descending_take [OF descending_js_sort, of limit ?all]
    by (intro exI [of _ "take limit ?sorted"] exI [of _ ?sorted]) simp
qed

text \<open>
  C1. For two or more document IDs whose similarity queries all answer, both fan-out
  functions (\<open>retrieveRelevantChunksFromFiles\<close>, and \<open>retrieveRelevantChunksForPhone\<close>
  with no call IDs) issue exactly one \<open>match_documents\<close> request per document ID, in order,
  each with \<open>match_count = limit\<close>; the returned list is the first \<open>limit\<close> elements of
  a rearrangement of the concatenated per-document rows that is in order of non-increasing
  similarity, so it is itself in that order and has at most \<open>limit\<close> elements; and when
  there are two documents that yield \<open>limit\<close> rows each, it has exactly \<open>limit\<close>
  elements.
\<close>

theorem document_set_retrieval:
  assumes "2 \<le> length fileIds"
    and "\<forall>f \<in> set fileIds. rpc (file_request q limit f) = Inr (rows f)"
  shows "(\<exists>result sorted_all.
           retrieveRelevantChunksFromFiles rpc q fileIds limit =
             (map (file_request q limit) fileIds, Inr result)
         \<and> mset sorted_all = mset (concat (map (\<lambda>f. map (with_file_id f) (rows f)) fileIds))
         \<and> descending sorted_all
         \<and> result = take limit sorted_all
         \<and> descending result
         \<and> length result \<le> limit
         \<and> (length fileIds = 2 \<and> (\<forall>f \<in> set fileIds. length (rows f) = limit)
              \<longrightarrow> length result = limit))
       \<and> (\<exists>result sorted_all.
           retrieveRelevantChunksForPhone rpc q fileIds [] limit =
             (map (file_request q limit) fileIds, Inr result)
         \<and> mset sorted_all = mset (concat (map rows fileIds))
         \<and> descending sorted_all
         \<and> result = take limit sorted_all
         \<and> descending result
         \<and> length result \<le> limit
         \<and> (length fileIds = 2 \<and> (\<forall>f \<in> set fileIds. length (rows f) = limit)
              \<longrightarrow> length result = limit))"
  using from_files_merge [OF assms] for_phone_merge [OF assms] by (rule conjI)

theorem document_set_retrieval_witness:
  "2 \<le> length [''doc-a'', ''doc-b'']
   \<and> example_rpc (file_request [1/2, 1/4] 2 ''doc-a'') = Inr (example_rows ''doc-a'')
   \<and> example_rpc (file_request [1/2, 1/4] 2 ''doc-b'') = Inr (example_rows ''doc-b'')
   \<and> length (example_rows ''doc-a'') = 2
   \<and> length (example_rows ''doc-b'') = 2
   \<and> (\<exists>result sorted_all.
           retrieveRelevantChunksFromFiles example_rpc [1/2, 1/4] [''doc-a'', ''doc-b''] 2 =
             (map (file_request [1/2, 1/4] 2) [''doc-a'', ''doc-b''], Inr result)
         \<and> mset sorted_all =
             mset (concat (map (\<lambda>f. map (with_file_id f) (example_rows f))
                    [''doc-a'', ''doc-b'']))
         \<and> descending sorted_all
         \<and> result = take 2 sorted_all
         \<and> length result = 2)
   \<and> (\<exists>result sorted_all.
           retrieveRelevantChunksForPhone example_rpc [1/2, 1/4] [''doc-a'', ''doc-b''] [] 2 =
             (map (file_request [1/2, 1/4] 2) [''doc-a'', ''doc-b''], Inr result)
         \<and> mset sorted_all = mset (concat (map example_rows [''doc-a'', ''doc-b'']))
         \<and> descending sorted_all
         \<and> result = take 2 sorted_all
         \<and> length result = 2)"
proof -
  have h1: "2 \<le> length [''doc-a'', ''doc-b'']" by simp
  have a: "example_rpc (file_request [1/2, 1/4] 2 ''doc-a'') = Inr (example_rows ''doc-a'')"
    and b: "example_rpc (file_request [1/2, 1/4] 2 ''doc-b'') = Inr (example_rows ''doc-b'')"
    by (simp_all add: example_rpc_def file_request_def example_rows_def)
  have la: "length (example_rows ''doc-a'') = 2" and lb: "length (example_rows ''doc-b'') = 2"
    by (simp_all add: example_rows_def)
  from a b have h2: "\<forall>f \<in> set [''doc-a'', ''doc-b''].
              example_rpc (file_request [1/2, 1/4] 2 f) = Inr (example_rows f)"
    by simp
  from la lb have h3: "length [''doc-a'', ''doc-b''] = 2
            \<and> (\<forall>f \<in> set [''doc-a'', ''doc-b'']. length (example_rows f) = 2)"
    by simp
  show ?thesis
    using h1 a b la lb h3 document_set_retrieval [OF h1 h2] by blast
qed

text \<open>
  The same run, evaluated: of the four rows of the two documents, the two with the highest
  similarity come back, the higher first.
\<close>

lemma two_documents_example:
  "snd (retrieveRelevantChunksFromFiles example_rpc [1/2, 1/4] [''doc-a'', ''doc-b''] 2) =
     Inr [with_file_id ''doc-a'' (example_row ''a2'' (9/10)),
          with_file_id ''doc-b'' (example_row ''b1'' (7/10))]"
  by (simp add: retrieveRelevantChunksFromFiles_def retrieveRelevantChunks_def example_rpc_def
       example_rows_def slice0_def js_sort_def by_similarity_def with_file_id_def example_row_def
       match_row.defs)

text \<open>
  C9. With no document IDs (and, for the phone variant, no call IDs either) retrieval
  returns the empty list and issues no remote request, for every embedding and limit.
  The catalog variant \<open>retrieveRelevantShopifyChunks\<close> takes a store ID of type
  \<open>string\<close> and so has no empty scope.
\<close>

theorem empty_scope_retrieval:
  "retrieveRelevantChunksFromFiles rpc q [] limit = ([], Inr [])
   \<and> retrieveRelevantChunksForPhone rpc q [] [] limit = ([], Inr [])"
  by (simp add: retrieveRelevantChunksFromFiles_def retrieveRelevantChunksForPhone_def
        slice0_def js_sort_def)


section \<open>Properties of the source mapping directory\<close>

declare retry_loop.simps [simp del]

lemma attempts_simps:
  "attempts [] = 0"
  "attempts (Attempt # es) = Suc (attempts es)"
  "attempts (Wait n # es) = attempts es"
  "attempts (xs @ ys) = attempts xs + attempts ys"
  by (simp_all add: attempts_def)

lemma retry_loop_failed:
  "attempt \<le> maxRetries \<Longrightarrow> isl (queryFn (attempt - 1)) \<Longrightarrow>
   retry_loop queryFn maxRetries attempt =
     (Attempt # (if attempt < maxRetries then [Wait (attempt * 1000)] else [])
        @ fst (retry_loop queryFn maxRetries (attempt + 1)),
      snd (retry_loop queryFn maxRetries (attempt + 1)))"
  by (subst retry_loop.simps) (simp add: Let_def split: prod.splits)

lemma retry_loop_answered:
  "attempt \<le> maxRetries \<Longrightarrow> \<not> isl (queryFn (attempt - 1)) \<Longrightarrow>
   retry_loop queryFn maxRetries attempt = ([Attempt], Some (queryFn (attempt - 1)))"
  by (subst retry_loop.simps) (simp add: Let_def)

lemma retry_loop_exhausted:
  "\<not> attempt \<le> maxRetries \<Longrightarrow> retry_loop queryFn maxRetries attempt = ([], None)"
  by (subst retry_loop.simps) simp

lemma retry_loop_attempts:
  "attempts (fst (retry_loop queryFn maxRetries attempt)) \<le> Suc maxRetries - attempt"
proof (induction queryFn maxRetries attempt rule: retry_loop.induct)
  case (1 queryFn maxRetries attempt)
  consider (failed) "attempt \<le> maxRetries" "isl (queryFn (attempt - 1))"
    | (answered) "attempt \<le> maxRetries" "\<not> isl (queryFn (attempt - 1))"
    | (exhausted) "\<not> attempt \<le> maxRetries" by blast
  then show ?case
  proof cases
    case failed
    with 1 have "attempts (fst (retry_loop queryFn maxRetries (attempt + 1)))
                   \<le> Suc maxRetries - (attempt + 1)" by simp
    with failed show ?thesis
      by (auto simp add: retry_loop_failed attempts_simps retry_loop_exhausted)
  next
    case answered
    then show ?thesis by (simp add: retry_loop_answered attempts_simps)
  next
    case exhausted
    then show ?thesis by (simp add: retry_loop_exhausted attempts_simps)
  qed
qed

lemma retry_loop_None:
  "snd (retry_loop queryFn maxRetries attempt) = None \<Longrightarrow>
     attempts (fst (retry_loop queryFn maxRetries attempt)) = Suc maxRetries - attempt"
proof (induction queryFn maxRetries attempt rule: retry_loop.induct)
  case (1 queryFn maxRetries attempt)
  consider (failed) "attempt \<le> maxRetries" "isl (queryFn (attempt - 1))"
    | (answered) "attempt \<le> maxRetries" "\<not> isl (queryFn (attempt - 1))"
    | (exhausted) "\<not> attempt \<le> maxRetries" by blast
  then show ?case
  proof cases
    case failed
    with "1.prems" have "snd (retry_loop queryFn maxRetries (attempt + 1)) = None"
      by (simp add: retry_loop_failed)
    with failed "1.IH" have "attempts (fst (retry_loop queryFn maxRetries (attempt + 1)))
                   = Suc maxRetries - (attempt + 1)" by simp
    with failed show ?thesis
      by (auto simp add: retry_loop_failed attempts_simps retry_loop_exhausted)
  next
    case answered
    with "1.prems" show ?thesis by (simp add: retry_loop_answered)
  next
    case exhausted
    then show ?thesis by (simp add: retry_loop_exhausted attempts_simps)
  qed
qed

lemma retry_at_most:
  "attempts (fst (retrySupabaseQuery queryFn maxRetries)) \<le> Suc maxRetries"
proof (cases "retry_loop queryFn maxRetries 1")
  case (Pair evs r)
  show ?thesis
  proof (cases r)
    case None
    with Pair retry_loop_None [of queryFn maxRetries 1] have "attempts evs = maxRetries" by simp
    with None Pair show ?thesis
      by (simp add: retrySupabaseQuery_def attempts_simps)
  next
    case (Some r)
    with Pair retry_loop_attempts [of queryFn maxRetries 1] show ?thesis
      by (simp add: retrySupabaseQuery_def)
  qed
qed

lemma retry_loop_all_fail:
  "\<forall>k < maxRetries. isl (queryFn k) \<Longrightarrow> 1 \<le> attempt \<Longrightarrow>
     snd (retry_loop queryFn maxRetries attempt) = None"
proof (induction queryFn maxRetries attempt rule: retry_loop.induct)
  case (1 queryFn maxRetries attempt)
  show ?case
  proof (cases "attempt \<le> maxRetries")
    case True
    with "1.prems" have f: "isl (queryFn (attempt - 1))" by simp
    with True "1.IH" "1.prems" have "snd (retry_loop queryFn maxRetries (attempt + 1)) = None" by simp
    with True f show ?thesis by (simp add: retry_loop_failed)
  next
    case False
    then show ?thesis by (simp add: retry_loop_exhausted)
  qed
qed

lemma retry_all_fail:
  assumes "\<forall>k < maxRetries. isl (queryFn k)"
  shows "attempts (fst (retrySupabaseQuery queryFn maxRetries)) = Suc maxRetries
       \<and> snd (retrySupabaseQuery queryFn maxRetries) = queryFn maxRetries"
proof -
  from retry_loop_all_fail [OF assms, of 1] have n: "snd (retry_loop queryFn maxRetries 1) = None" by simp
  from retry_loop_None [OF n] have "attempts (fst (retry_loop queryFn maxRetries 1)) = maxRetries" by simp
  with n show ?thesis
    by (cases "retry_loop queryFn maxRetries 1") (simp add: retrySupabaseQuery_def attempts_simps)
qed

text \<open>
  C6. The claim bounds a read at 3 remote queries. \<open>retrySupabaseQuery\<close> with
  \<open>maxRetries = 3\<close> sends a fourth one when the first three fail, because after the loop
  it calls \<open>queryFn\<close> again instead of returning the answer it already has. Against a
  store that fails every time, \<open>getDataSourceForPhone\<close> sends a query, waits 1000 ms,
  sends a query, waits 2000 ms, sends a query and at once sends one more: 4 queries.
\<close>

theorem sustained_failure_issues_four_queries:
  "events (getDataSourceForPhone unreachable_store ''+15550100'') =
      [Attempt, Wait 1000, Attempt, Wait 2000, Attempt, Attempt]
   \<and> attempts (events (getDataSourceForPhone unreachable_store ''+15550100'')) = 4
   \<and> pauses (events (getDataSourceForPhone unreachable_store ''+15550100'')) = [1000, 2000]"
  by (simp add: getDataSourceForPhone_def retrySupabaseQuery_def retry_loop.simps
        unreachable_store_def connection_error_def attempts_def)

text \<open>
  C7, as stated, fails: a store without a row for the number and a store that cannot be
  reached give the caller the same value, \<open>null\<close>.
\<close>

theorem lookup_failure_indistinguishable:
  "returned (getDataSourceForPhone unreachable_store ''+15550100'') = None
   \<and> returned (getDataSourceForPhone empty_store ''+15550100'') = None
   \<and> returned (getShopifyStoreForPhoneNumber unreachable_store ''+15550100'') = None
   \<and> returned (getShopifyStoreForPhoneNumber empty_store ''+15550100'') = None"
  by (simp add: getDataSourceForPhone_def getShopifyStoreForPhoneNumber_def
        retrySupabaseQuery_def retry_loop.simps unreachable_store_def empty_store_def
        connection_error_def no_rows_error_def)

text \<open>
  C7, amended. Whenever the retried query of \<open>getDataSourceForPhone\<close> or of
  \<open>getShopifyStoreForPhoneNumber\<close> ends in an error, the lookup returns \<open>null\<close>,
  whatever the error is; zero rows (code \<open>PGRST116\<close>) and any other error differ only in
  that the other error is written to the error log.
\<close>

theorem lookup_error_returns_none:
  "(snd (retrySupabaseQuery (store phoneNumber) 3) = Inl error \<longrightarrow>
      returned (getDataSourceForPhone store phoneNumber) = None
    \<and> logged (getDataSourceForPhone store phoneNumber) =
        (if code error = ''PGRST116'' then []
         else [''Error fetching data source for phone number:'']))
   \<and> (snd (retrySupabaseQuery (store' phoneNumber) 3) = Inl error' \<longrightarrow>
      returned (getShopifyStoreForPhoneNumber store' phoneNumber) = None
    \<and> logged (getShopifyStoreForPhoneNumber store' phoneNumber) =
        (if code error' = ''PGRST116'' then []
         else [''Error fetching Shopify store for phone number:'']))"
  by (cases "retrySupabaseQuery (store phoneNumber) 3";
      cases "retrySupabaseQuery (store' phoneNumber) 3")
     (simp add: getDataSourceForPhone_def getShopifyStoreForPhoneNumber_def)

theorem lookup_error_returns_none_witness:
  "snd (retrySupabaseQuery (unreachable_store ''+15550100'' :: nat \<Rightarrow> data_source_row pg_result) 3)
     = Inl connection_error
   \<and> returned (getDataSourceForPhone unreachable_store ''+15550100'') = None
   \<and> logged (getDataSourceForPhone unreachable_store ''+15550100'') =
        [''Error fetching data source for phone number:'']
   \<and> snd (retrySupabaseQuery (empty_store ''+15550100'' :: nat \<Rightarrow> shopify_store_row pg_result) 3)
     = Inl no_rows_error
   \<and> returned (getShopifyStoreForPhoneNumber empty_store ''+15550100'') = None
   \<and> logged (getShopifyStoreForPhoneNumber empty_store ''+15550100'') = []"
proof -
  have h1: "snd (retrySupabaseQuery
                  (unreachable_store ''+15550100'' :: nat \<Rightarrow> data_source_row pg_result) 3)
              = Inl connection_error"
    by (simp add: retrySupabaseQuery_def retry_loop.simps unreachable_store_def)
  have h2: "snd (retrySupabaseQuery
                  (empty_store ''+15550100'' :: nat \<Rightarrow> shopify_store_row pg_result) 3)
              = Inl no_rows_error"
    by (simp add: retrySupabaseQuery_def retry_loop.simps empty_store_def)
  have c1: "code connection_error \<noteq> ''PGRST116''" and c2: "code no_rows_error = ''PGRST116''"
    by (simp_all add: connection_error_def no_rows_error_def)
  show ?thesis
    using h1 h2 c1 c2
      lookup_error_returns_none [of unreachable_store "''+15550100''" connection_error
                                    empty_store no_rows_error]
    by simp
qed


section \<open>Properties of the embedding client\<close>

declare embed_loop.simps [simp del]

lemma embed_loop_returned:
  "attempt < 5 \<Longrightarrow> embedText text attempt = Inr embedding \<Longrightarrow>
   embed_loop embedText random text cache attempt lastError =
     \<lparr>embed_calls = 1, waited = [], cache_after = cache(text \<mapsto> embedding),
      outcome = Inr embedding\<rparr>"
  by (subst embed_loop.simps) (simp add: embed_maxRetries_def)

lemma embed_loop_retried:
  "attempt < 4 \<Longrightarrow> embedText text attempt = Inl error \<Longrightarrow> isRateLimit error \<Longrightarrow>
   embed_loop embedText random text cache attempt lastError =
     (embed_loop embedText random text cache (attempt + 1) (Some error))
       \<lparr>embed_calls := embed_calls (embed_loop embedText random text cache (attempt + 1) (Some error)) + 1,
        waited := backoff random attempt
                  # waited (embed_loop embedText random text cache (attempt + 1) (Some error))\<rparr>"
  by (subst embed_loop.simps) (simp add: embed_maxRetries_def Let_def backoff_def)

lemma embed_loop_threw:
  "attempt < 5 \<Longrightarrow> embedText text attempt = Inl error \<Longrightarrow>
   \<not> (isRateLimit error \<and> attempt < 4) \<Longrightarrow>
   embed_loop embedText random text cache attempt lastError =
     \<lparr>embed_calls = 1, waited = [], cache_after = cache, outcome = Inl error\<rparr>"
  by (subst embed_loop.simps) (auto simp add: embed_maxRetries_def)

lemma embed_loop_cases:
  assumes "attempt < 5"
  obtains (returned) embedding where "embedText text attempt = Inr embedding"
    | (retried) error where "attempt < 4" "embedText text attempt = Inl error" "isRateLimit error"
    | (threw) error where "embedText text attempt = Inl error" "\<not> (isRateLimit error \<and> attempt < 4)"
  by (cases "embedText text attempt") auto



lemma embed_loop_shape:
  "attempt < 5 \<Longrightarrow>
   (let r = embed_loop embedText random text cache attempt lastError; n = embed_calls r in
      1 \<le> n \<and> attempt + n \<le> 5
    \<and> waited r = map (backoff random) [attempt ..< attempt + n - 1]
    \<and> (\<forall>k. attempt \<le> k \<and> k < attempt + n - 1 \<longrightarrow> rate_limited embedText text k)
    \<and> outcome r = embedText text (attempt + n - 1)
    \<and> (rate_limited embedText text (attempt + n - 1) \<longrightarrow> attempt + n = 5))"
proof (induction embedText random "text" cache attempt lastError rule: embed_loop.induct)
  case (1 embedText random t cache attempt lastError)
  from "1.prems" show ?case
  proof (cases rule: embed_loop_cases [of attempt embedText t])
    case (returned embedding)
    with "1.prems" show ?thesis
      by (auto simp add: embed_loop_returned rate_limited_def)
  next
    case (threw error)
    with "1.prems" show ?thesis
      by (auto simp add: embed_loop_threw rate_limited_def)
  next
    case (retried error)
    let ?rest = "embed_loop embedText random t cache (attempt + 1) (Some error)"
    have ih: "1 \<le> embed_calls ?rest \<and> attempt + 1 + embed_calls ?rest \<le> 5
      \<and> waited ?rest = map (backoff random) [attempt + 1 ..< attempt + 1 + embed_calls ?rest - 1]
      \<and> (\<forall>k. attempt + 1 \<le> k \<and> k < attempt + 1 + embed_calls ?rest - 1 \<longrightarrow> rate_limited embedText t k)
      \<and> outcome ?rest = embedText t (attempt + 1 + embed_calls ?rest - 1)
      \<and> (rate_limited embedText t (attempt + 1 + embed_calls ?rest - 1) \<longrightarrow> attempt + 1 + embed_calls ?rest = 5)"
      using "1.IH" [of error] retried "1.prems" by (simp add: embed_maxRetries_def Let_def)
    have here: "rate_limited embedText t attempt"
      using retried by (simp add: rate_limited_def)
    have up: "[attempt ..< attempt + embed_calls ?rest] = attempt # [attempt + 1 ..< attempt + embed_calls ?rest]"
      using ih by (simp add: upt_conv_Cons)
    have rl: "\<forall>k. attempt \<le> k \<and> k < attempt + embed_calls ?rest \<longrightarrow> rate_limited embedText t k"
    proof (intro allI impI)
      fix k assume k: "attempt \<le> k \<and> k < attempt + embed_calls ?rest"
      show "rate_limited embedText t k"
      proof (cases "k = attempt")
        case True with here show ?thesis by simp
      next
        case False
        with k have "attempt + 1 \<le> k \<and> k < attempt + 1 + embed_calls ?rest - 1" by simp
        with ih show ?thesis by blast
      qed
    qed
    let ?r = "embed_loop embedText random t cache attempt lastError"
    have eq: "?r = ?rest\<lparr>embed_calls := embed_calls ?rest + 1,
                              waited := backoff random attempt # waited ?rest\<rparr>"
      using retried by (rule embed_loop_retried)
    have calls: "embed_calls ?r = embed_calls ?rest + 1"
      by (subst eq) simp
    have w: "waited ?r = backoff random attempt # waited ?rest"
      by (subst eq) simp
    have out: "outcome ?r = outcome ?rest"
      by (subst eq) simp
    have idx: "attempt + (embed_calls ?rest + 1) - 1 = attempt + embed_calls ?rest"
      and idx': "attempt + 1 + embed_calls ?rest - 1 = attempt + embed_calls ?rest"
      by simp_all
    have c1: "1 \<le> embed_calls ?r \<and> attempt + embed_calls ?r \<le> 5"
      using ih calls by simp
    have c2: "waited ?r = map (backoff random) [attempt ..< attempt + embed_calls ?r - 1]"
      using ih up unfolding w calls idx idx' by simp
    have c3: "\<forall>k. attempt \<le> k \<and> k < attempt + embed_calls ?r - 1
                 \<longrightarrow> rate_limited embedText t k"
      using rl unfolding calls idx .
    have c4: "outcome ?r = embedText t (attempt + embed_calls ?r - 1)"
      using ih unfolding out calls idx idx' by blast
    have c5: "rate_limited embedText t (attempt + embed_calls ?r - 1)
                \<longrightarrow> attempt + embed_calls ?r = 5"
      using ih unfolding calls idx idx' by simp
    show ?thesis
      unfolding Let_def using c1 c2 c3 c4 c5 by blast
  qed
qed


lemma backoff_bounds:
  assumes "\<forall>k. 0 \<le> random k \<and> random k < 1"
  shows "2 ^ k * 1000 \<le> backoff random k \<and> backoff random k < 2 ^ k * 1000 + 1000"
proof -
  from assms have "0 \<le> random k" and "random k < 1" by auto
  then show ?thesis by (simp add: backoff_def)
qed

lemma backoff_mono:
  assumes jitter: "\<forall>k. 0 \<le> random k \<and> random k < 1" and kl: "k \<le> l"
  shows "backoff random k \<le> backoff random l"
proof (cases "k = l")
  case True
  then show ?thesis by simp
next
  case False
  with kl have "Suc k \<le> l" by simp
  then have "(2::rat) ^ Suc k \<le> 2 ^ l"
    by (intro power_increasing) simp_all
  then have p: "2 * (2::rat) ^ k \<le> 2 ^ l" by simp
  have "(1::rat) \<le> 2 ^ k" by simp
  with p have "(2::rat) ^ k * 1000 + 1000 \<le> 2 ^ l * 1000" by linarith
  with backoff_bounds [OF jitter, of k] backoff_bounds [OF jitter, of l]
  show ?thesis by linarith
qed

lemma sorted_backoffs:
  assumes "\<forall>k. 0 \<le> random k \<and> random k < 1"
  shows "sorted (map (backoff random) [a ..< b])"
proof -
  have "sorted_wrt (\<lambda>k l. backoff random k \<le> backoff random l) [a ..< b]"
    by (rule sorted_wrt_mono_rel [of _ "(\<le>)"]) (simp_all add: backoff_mono [OF assms])
  then show ?thesis by (simp add: sorted_map)
qed

text \<open>
  C2. Let the jitter source give values in \<open>[0, 1)\<close>, as \<open>Math.random()\<close> does. Then
  for every provider, text and cache, a run of \<open>embedTextWithRateLimit\<close>
  \<^item> calls the provider at most 5 times;
  \<^item> made every call but its last one fail with a rate-limit error: it retries after
    nothing else;
  \<^item> pauses after the failed call number \<open>k\<close> (counted from 0) for
    \<open>2 ^ k * 1000 + random k * 1000\<close> milliseconds, which lies in
    \<open>[2 ^ k s, 2 ^ k s + 1 s)\<close>, so the pauses are non-decreasing;
  \<^item> when the text is not cached and a call fails with an error that is not a rate-limit
    error, after rate-limit errors only, that call is the last one and its error is thrown;
  \<^item> when the text is not cached and the first 5 calls all fail with rate-limit errors,
    makes exactly 5 calls and throws the error of the fifth.
\<close>

theorem embedding_retry_policy:
  assumes jitter: "\<forall>k. 0 \<le> random k \<and> random k < 1"
  shows "embed_calls (embedTextWithRateLimit embedText random text cache) \<le> 5
    \<and> (\<forall>k < embed_calls (embedTextWithRateLimit embedText random text cache) - 1.
          rate_limited embedText text k)
    \<and> waited (embedTextWithRateLimit embedText random text cache) =
        map (backoff random)
          [0 ..< embed_calls (embedTextWithRateLimit embedText random text cache) - 1]
    \<and> (\<forall>k. 2 ^ k * 1000 \<le> backoff random k \<and> backoff random k < 2 ^ k * 1000 + 1000)
    \<and> sorted (waited (embedTextWithRateLimit embedText random text cache))
    \<and> (\<forall>k error. cache text = None \<and> k < 5 \<and> (\<forall>j < k. rate_limited embedText text j)
          \<and> embedText text k = Inl error \<and> \<not> isRateLimit error
          \<longrightarrow> embed_calls (embedTextWithRateLimit embedText random text cache) = k + 1
            \<and> outcome (embedTextWithRateLimit embedText random text cache) = Inl error)
    \<and> (cache text = None \<and> (\<forall>k < 5. rate_limited embedText text k)
          \<longrightarrow> embed_calls (embedTextWithRateLimit embedText random text cache) = 5
            \<and> outcome (embedTextWithRateLimit embedText random text cache) = embedText text 4)"
proof (cases "cache text")
  case (Some embedding)
  then show ?thesis
    using backoff_bounds [OF jitter] by (simp add: embedTextWithRateLimit_def)
next
  case None
  let ?r = "embed_loop embedText random text cache 0 None"
  let ?n = "embed_calls ?r"
  have run: "embedTextWithRateLimit embedText random text cache = ?r"
    using None by (simp add: embedTextWithRateLimit_def)
  from embed_loop_shape [of 0 embedText random "text" cache None]
  have n: "1 \<le> ?n" "?n \<le> 5"
    and w: "waited ?r = map (backoff random) [0 ..< ?n - 1]"
    and rl: "\<forall>k. k < ?n - 1 \<longrightarrow> rate_limited embedText text k"
    and out: "outcome ?r = embedText text (?n - 1)"
    and last: "rate_limited embedText text (?n - 1) \<longrightarrow> ?n = 5"
    by (simp_all add: Let_def)
  have sorted: "sorted (waited ?r)"
    unfolding w by (rule sorted_backoffs [OF jitter])
  have immediate: "?n = k + 1 \<and> outcome ?r = Inl error"
    if k: "k < 5" and before: "\<forall>j < k. rate_limited embedText text j"
      and at: "embedText text k = Inl error" and other: "\<not> isRateLimit error" for k error
  proof -
    from at other have nrl: "\<not> rate_limited embedText text k"
      by (simp add: rate_limited_def)
    with rl have "\<not> k < ?n - 1" by blast
    moreover have "\<not> ?n - 1 < k"
    proof
      assume "?n - 1 < k"
      with before have "rate_limited embedText text (?n - 1)" by blast
      with last have "?n = 5" by blast
      with \<open>?n - 1 < k\<close> k show False by simp
    qed
    ultimately have "?n - 1 = k" by simp
    with n out at show ?thesis by simp
  qed
  have exhausted: "?n = 5 \<and> outcome ?r = embedText text 4"
    if all: "\<forall>k < 5. rate_limited embedText text k"
  proof -
    from n have "?n - 1 < 5" by simp
    with all have "rate_limited embedText text (?n - 1)" by blast
    with last have "?n = 5" by blast
    with out show ?thesis by simp
  qed
  show ?thesis
    unfolding run using n w rl sorted immediate exhausted backoff_bounds [OF jitter] by blast
qed


theorem embedding_retry_policy_witness:
  "(\<forall>k. 0 \<le> half_jitter k \<and> half_jitter k < 1)
   \<and> embed_calls (embedTextWithRateLimit throttled half_jitter ''hello'' Map.empty) = 5
   \<and> waited (embedTextWithRateLimit throttled half_jitter ''hello'' Map.empty) =
        [1500, 2500, 4500, 8500]
   \<and> sorted (waited (embedTextWithRateLimit throttled half_jitter ''hello'' Map.empty))
   \<and> outcome (embedTextWithRateLimit throttled half_jitter ''hello'' Map.empty) =
        Inl rate_limit_error
   \<and> embed_calls (embedTextWithRateLimit throttled_then_rejected half_jitter ''hello'' Map.empty)
        = 3
   \<and> waited (embedTextWithRateLimit throttled_then_rejected half_jitter ''hello'' Map.empty) =
        [1500, 2500]
   \<and> outcome (embedTextWithRateLimit throttled_then_rejected half_jitter ''hello'' Map.empty) =
        Inl bad_request_error"
proof -
  have jitter: "\<forall>k. 0 \<le> half_jitter k \<and> half_jitter k < 1"
    by (simp add: half_jitter_def)
  have rl: "isRateLimit rate_limit_error" and other: "\<not> isRateLimit bad_request_error"
    by (simp_all add: isRateLimit_def rate_limit_error_def bad_request_error_def)
  note a = embedding_retry_policy [OF jitter, of throttled "''hello''" Map.empty]
  note b = embedding_retry_policy [OF jitter, of throttled_then_rejected "''hello''" Map.empty]
  note a_waited = a [THEN conjunct2, THEN conjunct2, THEN conjunct1]
  note a_sorted = a [THEN conjunct2, THEN conjunct2, THEN conjunct2, THEN conjunct2,
                     THEN conjunct1]
  note a_exhausted = a [THEN conjunct2, THEN conjunct2, THEN conjunct2, THEN conjunct2,
                        THEN conjunct2, THEN conjunct2]
  note b_waited = b [THEN conjunct2, THEN conjunct2, THEN conjunct1]
  note b_immediate = b [THEN conjunct2, THEN conjunct2, THEN conjunct2, THEN conjunct2,
                        THEN conjunct2, THEN conjunct1, THEN spec, THEN spec,
                        of 2 bad_request_error]
  have all: "\<forall>k < 5. rate_limited throttled ''hello'' k"
    using rl by (simp add: rate_limited_def throttled_def)
  with a_exhausted
  have a5: "embed_calls (embedTextWithRateLimit throttled half_jitter ''hello'' Map.empty) = 5"
    and aout: "outcome (embedTextWithRateLimit throttled half_jitter ''hello'' Map.empty) =
                 throttled ''hello'' 4"
    by simp_all
  have two: "\<forall>j < 2. rate_limited throttled_then_rejected ''hello'' j"
    using rl by (simp add: rate_limited_def throttled_then_rejected_def)
  have at2: "throttled_then_rejected ''hello'' 2 = Inl bad_request_error"
    by (simp add: throttled_then_rejected_def)
  from b_immediate two at2 other
  have b3: "embed_calls (embedTextWithRateLimit throttled_then_rejected half_jitter
                           ''hello'' Map.empty) = 3"
    and bout: "outcome (embedTextWithRateLimit throttled_then_rejected half_jitter
                           ''hello'' Map.empty) = Inl bad_request_error"
    by simp_all
  have hj: "half_jitter k = 1/2" for k
    by (simp add: half_jitter_def)
  have upt4: "[0 ..< 5 - 1] = [0, 1, 2, 3::nat]" and upt2: "[0 ..< 3 - 1] = [0, 1::nat]"
    by code_simp+
  have aw: "waited (embedTextWithRateLimit throttled half_jitter ''hello'' Map.empty) =
              [1500, 2500, 4500, 8500]"
  proof -
    have "map (backoff half_jitter) [0, 1, 2, 3] = [1500, 2500, 4500, 8500]"
      by (simp add: backoff_def hj)
    with a_waited [unfolded a5 upt4] show ?thesis by (rule trans)
  qed
  have bw: "waited (embedTextWithRateLimit throttled_then_rejected half_jitter
                           ''hello'' Map.empty) = [1500, 2500]"
  proof -
    have "map (backoff half_jitter) [0, 1] = [1500, 2500]"
      by (simp add: backoff_def hj)
    with b_waited [unfolded b3 upt2] show ?thesis by (rule trans)
  qed
  have aout': "outcome (embedTextWithRateLimit throttled half_jitter ''hello'' Map.empty) =
                 Inl rate_limit_error"
    using aout by (simp add: throttled_def)
  show ?thesis
    using jitter a5 aw a_sorted aout' b3 bw bout by blast
qed


section \<open>Properties of ingestion\<close>

declare embed_batches.simps [simp del] decimal.simps [simp del]

lemma recording_after_update:
  "call_recordings (update_recording callId change db) callId =
     map_option change (call_recordings db callId)"
  by (simp add: update_recording_def split: option.splits)

lemma status_after_update:
  "status_of (update_recording callId change db) callId =
     map_option (\<lambda>r. status (change r)) (call_recordings db callId)"
  by (simp add: status_of_def recording_after_update option.map_comp comp_def)

lemma error_reason_after_update:
  "error_reason_of (update_recording callId change db) callId =
     map_option (\<lambda>r. error_reason (change r)) (call_recordings db callId)"
  by (simp add: error_reason_of_def recording_after_update option.map_comp comp_def)

lemma rag_chunks_after_update:
  "rag_chunks (update_recording callId change db) = rag_chunks db"
  by (simp add: update_recording_def split: option.splits)

lemma classify_fallback:
  "chat transcript = Inl error \<Longrightarrow>
   classifyTranscript chat parse transcript =
     \<lparr>isBlank = JBool (length (js_trim transcript) < 50), isSpam = JBool False,
      is11zaRelated = JBool False, blankConfidence = JNum (1/2),
      spamConfidence = JNum (1/2), relevanceConfidence = JNum (1/2)\<rparr>"
  by (simp add: classifyTranscript_def conservative_classification_def)

lemma worker_transcription_failure:
  assumes "fetch_error w = None" and "call_recordings db callId = Some r"
    and "download w (storage_path r) = Inr audioBuffer"
    and "whisper w audioBuffer (file_name r) = Inl e"
  shows "status_of (fst (processCall w callId db)) callId = Some ''failed''
       \<and> error_reason_of (fst (processCall w callId db)) callId =
           Some (Some ''Failed to transcribe audio'')
       \<and> rag_chunks (fst (processCall w callId db)) = rag_chunks db
       \<and> snd (processCall w callId db) = [Whisper]"
  using assms
  by (simp add: processCall_def processCall_try_def transcribeAudio_def Let_def
        status_after_update error_reason_after_update rag_chunks_after_update
        recording_after_update)

lemma upload_transcription_failure:
  assumes "table_check_error u = None" and "form u = Inr f" and "form_file f = Some file"
    and "truthy (form_phone_number f)" and "upload_type file \<in> set allowedTypes"
    and "recording_insert u = Inr callId" and "callId \<noteq> []"
    and "whisper u (upload_bytes file) (upload_name file) = Inl e"
  shows "status_of (fst (POST u db)) callId = Some ''failed''
       \<and> error_reason_of (fst (POST u db)) callId = Some None
       \<and> rag_chunks (fst (POST u db)) = rag_chunks db"
  using assms
  by (simp add: POST_def POST_try_def POST_process_def transcribeAudio_def Let_def
        status_after_update error_reason_after_update rag_chunks_after_update
        recording_after_update)


lemma worker_chunking_calls:
  "ChunkText \<in> set (fst (snd (worker_chunking w callId callRecord transcript db)))"
  by (simp add: worker_chunking_def Let_def split: sum.splits option.splits)

lemma worker_chunking_keeps_recording:
  "call_recordings db callId = Some r \<Longrightarrow>
   \<exists>r'. call_recordings (fst (worker_chunking w callId callRecord transcript db)) callId = Some r'"
  by (simp add: worker_chunking_def Let_def recording_after_update
        split: sum.splits option.splits)

lemma worker_final_status_cases:
  "worker_final_status c =
     (if flagged_blank c then ''blank'' else if flagged_spam c then ''spam''
      else if flagged_relevant c then ''11za_related'' else ''irrelevant'')"
  by (simp add: worker_final_status_def flagged_blank_def flagged_spam_def flagged_relevant_def)

lemma upload_final_status_cases:
  "upload_final_status c =
     (if flagged_blank c then ''blank'' else if flagged_spam c then ''spam''
      else if flagged_relevant c then ''11za_related'' else ''approved'')"
  by (simp add: upload_final_status_def flagged_blank_def flagged_spam_def flagged_relevant_def)

lemma worker_classified:
  assumes "fetch_error w = None" and "call_recordings db callId = Some r"
    and "download w (storage_path r) = Inr audioBuffer"
    and "transcribeAudio (whisper w) audioBuffer (file_name r) = Inr transcript"
    and c: "c = classifyTranscript (classifier w) (json_parse w) transcript"
  shows "(ChunkText \<in> set (snd (processCall w callId db)))
           = (\<not> flagged_blank c \<and> \<not> flagged_spam c \<and> flagged_relevant c)"
    and "\<not> (\<not> flagged_blank c \<and> \<not> flagged_spam c \<and> flagged_relevant c) \<Longrightarrow>
           snd (processCall w callId db) = [Whisper, Classifier]
         \<and> rag_chunks (fst (processCall w callId db)) = rag_chunks db
         \<and> status_of (fst (processCall w callId db)) callId =
             Some (if flagged_blank c then ''blank'' else if flagged_spam c then ''spam''
                   else ''irrelevant'')"
    and "\<not> flagged_blank c \<and> \<not> flagged_spam c \<and> flagged_relevant c \<Longrightarrow>
           status_of (fst (processCall w callId db)) callId = Some ''11za_related''
         \<or> status_of (fst (processCall w callId db)) callId = Some ''failed''"
proof -
  let ?go = "\<not> flagged_blank c \<and> \<not> flagged_spam c \<and> flagged_relevant c"
  have fs: "(worker_final_status c = ''11za_related'') = ?go"
    by (simp add: worker_final_status_cases)
  have stay: "snd (processCall w callId db) = [Whisper, Classifier]
         \<and> rag_chunks (fst (processCall w callId db)) = rag_chunks db
         \<and> status_of (fst (processCall w callId db)) callId =
             Some (if flagged_blank c then ''blank'' else if flagged_spam c then ''spam''
                   else ''irrelevant'')" if "\<not> ?go"
  proof -
    from that fs have ne: "worker_final_status c \<noteq> ''11za_related''" by simp
    from that have st: "worker_final_status c =
        (if flagged_blank c then ''blank'' else if flagged_spam c then ''spam'' else ''irrelevant'')"
      by (auto simp add: worker_final_status_cases)
    show ?thesis
      using assms(1-4) ne st unfolding c
      by (simp add: processCall_def processCall_try_def Let_def status_after_update
            recording_after_update rag_chunks_after_update)
  qed
  have go: "ChunkText \<in> set (snd (processCall w callId db))
         \<and> (status_of (fst (processCall w callId db)) callId = Some ''11za_related''
           \<or> status_of (fst (processCall w callId db)) callId = Some ''failed'')" if "?go"
  proof -
    from that fs have eq: "worker_final_status c = ''11za_related''" by simp
    let ?db2 = "update_recording callId (\<lambda>r. r\<lparr>status := ''classifying''\<rparr>)
                  (update_recording callId (\<lambda>r. r\<lparr>status := ''transcribing''\<rparr>) db)"
    let ?db3 = "(if transcript_insert_error w = None
                 then ?db2\<lparr>call_transcripts := call_transcripts ?db2 @
                        [\<lparr>transcript_call_id = callId, transcript_text = transcript,
                          transcript_length = length transcript\<rparr>]\<rparr>
                 else ?db2)"
    let ?db4 = "(if classification_insert_error w = None
                 then ?db3\<lparr>call_classifications := call_classifications ?db3 @
                        [\<lparr>classification_call_id = callId, classified = c\<rparr>]\<rparr>
                 else ?db3)"
    obtain db5 calls completed where
      wc: "worker_chunking w callId r transcript ?db4 = (db5, calls, completed)"
      by (cases "worker_chunking w callId r transcript ?db4") auto
    have "\<exists>r'. call_recordings ?db4 callId = Some r'"
      using assms(2) by (simp add: recording_after_update)
    then obtain r4 where "call_recordings ?db4 callId = Some r4" by blast
    from worker_chunking_keeps_recording [OF this, of w r transcript] wc
    obtain r5 where r5: "call_recordings db5 callId = Some r5" by auto
    from worker_chunking_calls [of w callId r transcript ?db4] wc
    have ct: "ChunkText \<in> set calls" by simp
    have run: "processCall w callId db =
        (update_recording callId
           (\<lambda>r. r\<lparr>status := (if completed then ''11za_related'' else ''failed''),
                   processed_at := Some (now w)\<rparr>) db5,
         [Whisper, Classifier] @ calls)"
      using assms(1-4) eq wc unfolding c
      by (simp add: processCall_def processCall_try_def Let_def)
    show ?thesis
      unfolding run using ct r5 by (simp add: status_after_update)
  qed
  show "(ChunkText \<in> set (snd (processCall w callId db))) = ?go"
    using stay go by (cases ?go) auto
  show "\<not> ?go \<Longrightarrow> snd (processCall w callId db) = [Whisper, Classifier]
         \<and> rag_chunks (fst (processCall w callId db)) = rag_chunks db
         \<and> status_of (fst (processCall w callId db)) callId =
             Some (if flagged_blank c then ''blank'' else if flagged_spam c then ''spam''
                   else ''irrelevant'')"
    using stay by blast
  show "?go \<Longrightarrow> status_of (fst (processCall w callId db)) callId = Some ''11za_related''
         \<or> status_of (fst (processCall w callId db)) callId = Some ''failed''"
    using go by blast
qed


lemma upload_rag_calls:
  "ChunkText \<in> set (fst (snd (upload_rag u callId phoneNumber transcript db)))"
  by (simp add: upload_rag_def Let_def split: sum.splits option.splits prod.splits)

lemma upload_rag_keeps_recordings:
  "call_recordings (fst (upload_rag u callId phoneNumber transcript db)) = call_recordings db"
  by (simp add: upload_rag_def Let_def split: sum.splits option.splits prod.splits)

lemma upload_classified:
  assumes "table_check_error u = None" and "form u = Inr f" and "form_file f = Some file"
    and "truthy (form_phone_number f)" and "upload_type file \<in> set allowedTypes"
    and "recording_insert u = Inr callId" and "callId \<noteq> []"
    and "transcribeAudio (whisper u) (upload_bytes file) (upload_name file) = Inr transcript"
    and "transcript_insert_error u = None" and "classification_insert_error u = None"
    and c: "c = classifyTranscript (classifier u) (json_parse u) transcript"
  shows "(ChunkText \<in> set (fst (snd (POST u db))))
           = (\<not> flagged_blank c \<and> \<not> flagged_spam c \<and> flagged_relevant c)"
    and "\<not> (\<not> flagged_blank c \<and> \<not> flagged_spam c \<and> flagged_relevant c) \<Longrightarrow>
           fst (snd (POST u db)) = [Whisper, Classifier]
         \<and> rag_chunks (fst (POST u db)) = rag_chunks db
         \<and> status_of (fst (POST u db)) callId =
             Some (if flagged_blank c then ''blank'' else if flagged_spam c then ''spam''
                   else ''approved'')"
    and "\<not> flagged_blank c \<and> \<not> flagged_spam c \<and> flagged_relevant c \<Longrightarrow>
           status_of (fst (POST u db)) callId = Some ''11za_related''
         \<or> status_of (fst (POST u db)) callId = Some ''failed''"
proof -
  let ?go = "\<not> flagged_blank c \<and> \<not> flagged_spam c \<and> flagged_relevant c"
  have fs: "(upload_final_status c = ''11za_related'') = ?go"
    by (simp add: upload_final_status_cases)
  have stay: "fst (snd (POST u db)) = [Whisper, Classifier]
         \<and> rag_chunks (fst (POST u db)) = rag_chunks db
         \<and> status_of (fst (POST u db)) callId =
             Some (if flagged_blank c then ''blank'' else if flagged_spam c then ''spam''
                   else ''approved'')" if "\<not> ?go"
  proof -
    from that fs have ne: "upload_final_status c \<noteq> ''11za_related''" by simp
    from that have st: "upload_final_status c =
        (if flagged_blank c then ''blank'' else if flagged_spam c then ''spam'' else ''approved'')"
      by (auto simp add: upload_final_status_cases)
    show ?thesis
      using assms(1-10) ne st unfolding c
      by (simp add: POST_def POST_try_def POST_process_def Let_def status_after_update
            recording_after_update rag_chunks_after_update)
  qed
  have go: "ChunkText \<in> set (fst (snd (POST u db)))
         \<and> (status_of (fst (POST u db)) callId = Some ''11za_related''
           \<or> status_of (fst (POST u db)) callId = Some ''failed'')" if "?go"
  proof -
    from that fs have eq: "upload_final_status c = ''11za_related''" by simp
    let ?db0 = "db\<lparr>call_recordings := (call_recordings db)(callId \<mapsto>
                    \<lparr>file_name = upload_name file, storage_path = None,
                     phone_number = Some (the (form_phone_number f)),
                     status = ''uploaded'', error_reason = None,
                     chunk_count = None, processed_at = None\<rparr>)\<rparr>"
    let ?db1 = "update_recording callId (\<lambda>r. r\<lparr>status := ''transcribing''\<rparr>) ?db0"
    let ?db2 = "?db1\<lparr>call_transcripts := call_transcripts ?db1 @
                    [\<lparr>transcript_call_id = callId, transcript_text = transcript,
                      transcript_length = length transcript\<rparr>]\<rparr>"
    let ?db3 = "?db2\<lparr>call_classifications := call_classifications ?db2 @
                    [\<lparr>classification_call_id = callId, classified = c\<rparr>]\<rparr>"
    obtain db4 calls thrown where
      ur: "upload_rag u callId (the (form_phone_number f)) transcript ?db3 = (db4, calls, thrown)"
      by (cases "upload_rag u callId (the (form_phone_number f)) transcript ?db3") auto
    from upload_rag_keeps_recordings [of u callId "the (form_phone_number f)" transcript ?db3] ur
    have "call_recordings db4 = call_recordings ?db3" by simp
    then have "\<exists>r4. call_recordings db4 callId = Some r4"
      by (simp add: recording_after_update)
    then obtain r4 where r4: "call_recordings db4 callId = Some r4" by blast
    from upload_rag_calls [of u callId "the (form_phone_number f)" transcript ?db3] ur
    have ct: "ChunkText \<in> set calls" by simp
    show ?thesis
    proof (cases thrown)
      case None
      have "fst (POST u db) = update_recording callId
                (\<lambda>r. r\<lparr>status := ''11za_related'', processed_at := Some (now u)\<rparr>) db4
          \<and> fst (snd (POST u db)) = [Whisper, Classifier] @ calls"
        using assms(1-10) eq ur None unfolding c
        by (simp add: POST_def POST_try_def POST_process_def Let_def)
      with ct r4 show ?thesis by (simp add: status_after_update)
    next
      case (Some e)
      have "fst (POST u db) = update_recording callId (\<lambda>r. r\<lparr>status := ''failed''\<rparr>) db4
          \<and> fst (snd (POST u db)) = [Whisper, Classifier] @ calls"
        using assms(1-10) eq ur Some unfolding c
        by (simp add: POST_def POST_try_def POST_process_def Let_def)
      with ct r4 show ?thesis by (simp add: status_after_update)
    qed
  qed
  show "(ChunkText \<in> set (fst (snd (POST u db)))) = ?go"
    using stay go by (cases ?go) auto
  show "\<not> ?go \<Longrightarrow> fst (snd (POST u db)) = [Whisper, Classifier]
         \<and> rag_chunks (fst (POST u db)) = rag_chunks db
         \<and> status_of (fst (POST u db)) callId =
             Some (if flagged_blank c then ''blank'' else if flagged_spam c then ''spam''
                   else ''approved'')"
    using stay by blast
  show "?go \<Longrightarrow> status_of (fst (POST u db)) callId = Some ''11za_related''
         \<or> status_of (fst (POST u db)) callId = Some ''failed''"
    using go by blast
qed


text \<open>
  C3. Whenever the classifier request fails, \<open>classifyTranscript\<close> returns
  \<open>isBlank = (trimmed transcript length < 50)\<close>, \<open>isSpam = false\<close>,
  \<open>is11zaRelated = false\<close> and the three confidences 0.5. In the worker, a unit whose
  transcript is empty and whose classifier request fails is classified blank, makes no
  further provider call, gets no chunk and ends with status \<open>blank\<close>.
\<close>

theorem classifier_fallback:
  "(chat transcript = Inl error \<longrightarrow>
      classifyTranscript chat parse transcript =
        \<lparr>isBlank = JBool (length (js_trim transcript) < 50), isSpam = JBool False,
         is11zaRelated = JBool False, blankConfidence = JNum (1/2),
         spamConfidence = JNum (1/2), relevanceConfidence = JNum (1/2)\<rparr>)
   \<and> (fetch_error w = None \<and> call_recordings db callId = Some r
        \<and> download w (storage_path r) = Inr audioBuffer
        \<and> transcribeAudio (whisper w) audioBuffer (file_name r) = Inr ''''
        \<and> classifier w '''' = Inl error' \<longrightarrow>
      classifyTranscript (classifier w) (json_parse w) '''' =
        \<lparr>isBlank = JBool True, isSpam = JBool False,
         is11zaRelated = JBool False, blankConfidence = JNum (1/2),
         spamConfidence = JNum (1/2), relevanceConfidence = JNum (1/2)\<rparr>
      \<and> snd (processCall w callId db) = [Whisper, Classifier]
      \<and> rag_chunks (fst (processCall w callId db)) = rag_chunks db
      \<and> status_of (fst (processCall w callId db)) callId = Some ''blank'')"
proof (intro conjI impI)
  assume "chat transcript = Inl error"
  then show "classifyTranscript chat parse transcript =
        \<lparr>isBlank = JBool (length (js_trim transcript) < 50), isSpam = JBool False,
         is11zaRelated = JBool False, blankConfidence = JNum (1/2),
         spamConfidence = JNum (1/2), relevanceConfidence = JNum (1/2)\<rparr>"
    by (rule classify_fallback)
next
  assume a: "fetch_error w = None \<and> call_recordings db callId = Some r
        \<and> download w (storage_path r) = Inr audioBuffer
        \<and> transcribeAudio (whisper w) audioBuffer (file_name r) = Inr ''''
        \<and> classifier w '''' = Inl error'"
  let ?c = "classifyTranscript (classifier w) (json_parse w) ''''"
  from a have c: "?c = \<lparr>isBlank = JBool True, isSpam = JBool False,
         is11zaRelated = JBool False, blankConfidence = JNum (1/2),
         spamConfidence = JNum (1/2), relevanceConfidence = JNum (1/2)\<rparr>"
    using classify_fallback [of "classifier w" "''''" error' "json_parse w"]
    by (simp add: js_trim_def)
  then have blank: "flagged_blank ?c" by (simp add: flagged_blank_def)
  from a have pre: "fetch_error w = None" "call_recordings db callId = Some r"
    "download w (storage_path r) = Inr audioBuffer"
    "transcribeAudio (whisper w) audioBuffer (file_name r) = Inr ''''" by simp_all
  from worker_classified(2) [OF pre refl] blank
  have "snd (processCall w callId db) = [Whisper, Classifier]
      \<and> rag_chunks (fst (processCall w callId db)) = rag_chunks db
      \<and> status_of (fst (processCall w callId db)) callId = Some ''blank''"
    by simp
  with c show "classifyTranscript (classifier w) (json_parse w) '''' =
        \<lparr>isBlank = JBool True, isSpam = JBool False,
         is11zaRelated = JBool False, blankConfidence = JNum (1/2),
         spamConfidence = JNum (1/2), relevanceConfidence = JNum (1/2)\<rparr>"
    and "snd (processCall w callId db) = [Whisper, Classifier]"
    and "rag_chunks (fst (processCall w callId db)) = rag_chunks db"
    and "status_of (fst (processCall w callId db)) callId = Some ''blank''"
    by simp_all
qed

theorem classifier_fallback_witness:
  "classifier (example_worker (Inr (TextResponse '''')) (Inl (Error ''model unavailable'')) JNull)
       ''     '' = Inl (Error ''model unavailable'')
   \<and> classifyTranscript
        (classifier (example_worker (Inr (TextResponse ''''))
                       (Inl (Error ''model unavailable'')) JNull))
        (json_parse (example_worker (Inr (TextResponse ''''))
                       (Inl (Error ''model unavailable'')) JNull)) ''     '' =
        \<lparr>isBlank = JBool True, isSpam = JBool False,
         is11zaRelated = JBool False, blankConfidence = JNum (1/2),
         spamConfidence = JNum (1/2), relevanceConfidence = JNum (1/2)\<rparr>
   \<and> fetch_error (example_worker (Inr (TextResponse ''''))
                       (Inl (Error ''model unavailable'')) JNull) = None
   \<and> call_recordings example_db ''call-1'' = Some example_recording
   \<and> status_of (fst (processCall
        (example_worker (Inr (TextResponse '''')) (Inl (Error ''model unavailable'')) JNull)
        ''call-1'' example_db)) ''call-1'' = Some ''blank''
   \<and> rag_chunks (fst (processCall
        (example_worker (Inr (TextResponse '''')) (Inl (Error ''model unavailable'')) JNull)
        ''call-1'' example_db)) = []"
proof -
  let ?w = "example_worker (Inr (TextResponse '''')) (Inl (Error ''model unavailable'')) JNull"
  have h1: "classifier ?w ''     '' = Inl (Error ''model unavailable'')"
    by (simp add: example_worker_def)
  have h2: "fetch_error ?w = None \<and> call_recordings example_db ''call-1'' = Some example_recording
        \<and> download ?w (storage_path example_recording) = Inr [73, 68, 51]
        \<and> transcribeAudio (whisper ?w) [73, 68, 51] (file_name example_recording) = Inr ''''
        \<and> classifier ?w '''' = Inl (Error ''model unavailable'')"
    by (simp add: example_worker_def example_db_def transcribeAudio_def)
  have t: "length (js_trim ''     '') < 50"
    by (simp add: js_trim_def is_js_whitespace_def)
  have e: "rag_chunks example_db = []"
    by (simp add: example_db_def)
  note inst = classifier_fallback [of "classifier ?w" "''     ''" "Error ''model unavailable''"
      "json_parse ?w" ?w example_db "''call-1''" example_recording "[73, 68, 51]"
      "Error ''model unavailable''"]
  show ?thesis
    using h1 h2 t e inst by simp
qed

text \<open>
  C4 in the worker: a unit whose transcription fails ends with status \<open>failed\<close> and the
  error reason \<open>Failed to transcribe audio\<close>, and gets no chunk
  (\<open>worker_transcription_failure\<close> above). In the upload route the \<open>catch\<close> block
  writes the status only (\<open>upload_transcription_failure\<close> above): on the unit the error
  reason stays \<open>null\<close>, and the message goes into the HTTP response. An upload whose
  transcription fails:
\<close>

theorem upload_transcription_failure_records_no_reason:
  "status_of (fst (POST (example_upload (Inl (Error ''provider timeout'')) (Inr None) JNull)
                    example_db)) ''call-2'' = Some ''failed''
   \<and> error_reason_of (fst (POST (example_upload (Inl (Error ''provider timeout'')) (Inr None)
                    JNull) example_db)) ''call-2'' = Some None
   \<and> chunks_of (fst (POST (example_upload (Inl (Error ''provider timeout'')) (Inr None) JNull)
                    example_db)) ''call-2'' = []
   \<and> snd (snd (POST (example_upload (Inl (Error ''provider timeout'')) (Inr None) JNull)
                    example_db)) =
        \<lparr>http_status = 500, body = ErrorBody ''Failed to transcribe audio''\<rparr>"
  by (simp add: POST_def POST_try_def POST_process_def example_upload_def example_db_def
        status_of_def error_reason_of_def chunks_of_def transcribeAudio_def allowedTypes_def
        update_recording_def)

text \<open>The same failure in the worker, where the reason is recorded.\<close>

lemma worker_transcription_failure_example:
  "status_of (fst (processCall (example_worker (Inl (Error ''provider timeout'')) (Inr None)
                    JNull) ''call-1'' example_db)) ''call-1'' = Some ''failed''
   \<and> error_reason_of (fst (processCall (example_worker (Inl (Error ''provider timeout''))
                    (Inr None) JNull) ''call-1'' example_db)) ''call-1'' =
        Some (Some ''Failed to transcribe audio'')
   \<and> chunks_of (fst (processCall (example_worker (Inl (Error ''provider timeout'')) (Inr None)
                    JNull) ''call-1'' example_db)) ''call-1'' = []"
  by (simp add: processCall_def processCall_try_def example_worker_def example_db_def
        status_of_def error_reason_of_def chunks_of_def transcribeAudio_def
        update_recording_def example_recording_def)

text \<open>
  C5, as stated, fails in the upload route: a transcript that is neither blank, nor spam,
  nor relevant ends there with status \<open>approved\<close>, not \<open>irrelevant\<close>.
\<close>

theorem upload_unrelated_is_approved:
  "classifyTranscript
     (classifier (example_upload (Inr (TextResponse ''wrong number, goodbye''))
                    (Inr (Some ''{...}'')) unrelated_answer))
     (json_parse (example_upload (Inr (TextResponse ''wrong number, goodbye''))
                    (Inr (Some ''{...}'')) unrelated_answer))
     ''wrong number, goodbye'' =
       \<lparr>isBlank = JBool False, isSpam = JBool False, is11zaRelated = JBool False,
        blankConfidence = JNum (1/10), spamConfidence = JNum (1/10),
        relevanceConfidence = JNum (1/5)\<rparr>
   \<and> status_of (fst (POST (example_upload (Inr (TextResponse ''wrong number, goodbye''))
                    (Inr (Some ''{...}'')) unrelated_answer) example_db)) ''call-2'' =
        Some ''approved''
   \<and> status_of (fst (POST (example_upload (Inr (TextResponse ''wrong number, goodbye''))
                    (Inr (Some ''{...}'')) unrelated_answer) example_db)) ''call-2'' \<noteq>
        Some ''irrelevant''"
  by (simp add: POST_def POST_try_def POST_process_def example_upload_def example_db_def
        status_of_def transcribeAudio_def allowedTypes_def update_recording_def
        classifyTranscript_def unrelated_answer_def upload_final_status_def Let_def)

text \<open>
  C5, amended. In both routes, once a transcript is classified, the chunker is called
  exactly when the relevance flag is true and neither the blank nor the spam flag is; then
  the unit ends with status \<open>11za_related\<close> or, when the chunking stage throws,
  \<open>failed\<close>. Otherwise no further provider is called, no chunk is stored, and the unit
  ends with \<open>blank\<close> when the blank flag is true, else with \<open>spam\<close> when the spam
  flag is true, else (neither blank, nor spam, nor relevant) with \<open>irrelevant\<close> in the
  worker and with \<open>approved\<close> in the upload route.
\<close>

theorem classification_decides_route:
  "(fetch_error w = None \<and> call_recordings db callId = Some r
      \<and> download w (storage_path r) = Inr audioBuffer
      \<and> transcribeAudio (whisper w) audioBuffer (file_name r) = Inr transcript
      \<and> c = classifyTranscript (classifier w) (json_parse w) transcript \<longrightarrow>
        (ChunkText \<in> set (snd (processCall w callId db)))
           = (\<not> flagged_blank c \<and> \<not> flagged_spam c \<and> flagged_relevant c)
      \<and> (\<not> (\<not> flagged_blank c \<and> \<not> flagged_spam c \<and> flagged_relevant c) \<longrightarrow>
           snd (processCall w callId db) = [Whisper, Classifier]
         \<and> rag_chunks (fst (processCall w callId db)) = rag_chunks db
         \<and> status_of (fst (processCall w callId db)) callId =
             Some (if flagged_blank c then ''blank'' else if flagged_spam c then ''spam''
                   else ''irrelevant''))
      \<and> (\<not> flagged_blank c \<and> \<not> flagged_spam c \<and> flagged_relevant c \<longrightarrow>
           status_of (fst (processCall w callId db)) callId = Some ''11za_related''
         \<or> status_of (fst (processCall w callId db)) callId = Some ''failed''))
   \<and> (table_check_error u = None \<and> form u = Inr f \<and> form_file f = Some audioFile
      \<and> truthy (form_phone_number f) \<and> upload_type audioFile \<in> set allowedTypes
      \<and> recording_insert u = Inr callId' \<and> callId' \<noteq> []
      \<and> transcribeAudio (whisper u) (upload_bytes audioFile) (upload_name audioFile) = Inr transcript'
      \<and> transcript_insert_error u = None \<and> classification_insert_error u = None
      \<and> c' = classifyTranscript (classifier u) (json_parse u) transcript' \<longrightarrow>
        (ChunkText \<in> set (fst (snd (POST u db'))))
           = (\<not> flagged_blank c' \<and> \<not> flagged_spam c' \<and> flagged_relevant c')
      \<and> (\<not> (\<not> flagged_blank c' \<and> \<not> flagged_spam c' \<and> flagged_relevant c') \<longrightarrow>
           fst (snd (POST u db')) = [Whisper, Classifier]
         \<and> rag_chunks (fst (POST u db')) = rag_chunks db'
         \<and> status_of (fst (POST u db')) callId' =
             Some (if flagged_blank c' then ''blank'' else if flagged_spam c' then ''spam''
                   else ''approved''))
      \<and> (\<not> flagged_blank c' \<and> \<not> flagged_spam c' \<and> flagged_relevant c' \<longrightarrow>
           status_of (fst (POST u db')) callId' = Some ''11za_related''
         \<or> status_of (fst (POST u db')) callId' = Some ''failed''))"
proof (intro conjI impI; (elim conjE)?)
  assume a: "fetch_error w = None" "call_recordings db callId = Some r"
    "download w (storage_path r) = Inr audioBuffer"
    "transcribeAudio (whisper w) audioBuffer (file_name r) = Inr transcript"
    "c = classifyTranscript (classifier w) (json_parse w) transcript"
  show "(ChunkText \<in> set (snd (processCall w callId db)))
           = (\<not> flagged_blank c \<and> \<not> flagged_spam c \<and> flagged_relevant c)"
    by (rule worker_classified(1) [OF a])
  show "snd (processCall w callId db) = [Whisper, Classifier]"
    and "rag_chunks (fst (processCall w callId db)) = rag_chunks db"
    and "status_of (fst (processCall w callId db)) callId =
             Some (if flagged_blank c then ''blank'' else if flagged_spam c then ''spam''
                   else ''irrelevant'')"
    if "\<not> (\<not> flagged_blank c \<and> \<not> flagged_spam c \<and> flagged_relevant c)"
    using worker_classified(2) [OF a that] by simp_all
  show "status_of (fst (processCall w callId db)) callId = Some ''11za_related''
         \<or> status_of (fst (processCall w callId db)) callId = Some ''failed''"
    if "\<not> flagged_blank c" "\<not> flagged_spam c" "flagged_relevant c"
    using worker_classified(3) [OF a] that by simp
next
  assume a: "table_check_error u = None" "form u = Inr f" "form_file f = Some audioFile"
    "truthy (form_phone_number f)" "upload_type audioFile \<in> set allowedTypes"
    "recording_insert u = Inr callId'" "callId' \<noteq> []"
    "transcribeAudio (whisper u) (upload_bytes audioFile) (upload_name audioFile) = Inr transcript'"
    "transcript_insert_error u = None" "classification_insert_error u = None"
    "c' = classifyTranscript (classifier u) (json_parse u) transcript'"
  show "(ChunkText \<in> set (fst (snd (POST u db'))))
           = (\<not> flagged_blank c' \<and> \<not> flagged_spam c' \<and> flagged_relevant c')"
    by (rule upload_classified(1) [OF a])
  show "fst (snd (POST u db')) = [Whisper, Classifier]"
    and "rag_chunks (fst (POST u db')) = rag_chunks db'"
    and "status_of (fst (POST u db')) callId' =
             Some (if flagged_blank c' then ''blank'' else if flagged_spam c' then ''spam''
                   else ''approved'')"
    if "\<not> (\<not> flagged_blank c' \<and> \<not> flagged_spam c' \<and> flagged_relevant c')"
    using upload_classified(2) [OF a that] by simp_all
  show "status_of (fst (POST u db')) callId' = Some ''11za_related''
         \<or> status_of (fst (POST u db')) callId' = Some ''failed''"
    if "\<not> flagged_blank c'" "\<not> flagged_spam c'" "flagged_relevant c'"
    using upload_classified(3) [OF a] that by simp
qed

theorem classification_decides_route_witness:
  "fetch_error (example_worker (Inr (TextResponse ''wrong number, goodbye''))
                  (Inr (Some ''{...}'')) unrelated_answer) = None
   \<and> call_recordings example_db ''call-1'' = Some example_recording
   \<and> transcribeAudio
        (whisper (example_worker (Inr (TextResponse ''wrong number, goodbye''))
                    (Inr (Some ''{...}'')) unrelated_answer))
        [73, 68, 51] (file_name example_recording) = Inr ''wrong number, goodbye''
   \<and> \<not> flagged_relevant
          (classifyTranscript
             (classifier (example_worker (Inr (TextResponse ''wrong number, goodbye''))
                            (Inr (Some ''{...}'')) unrelated_answer))
             (json_parse (example_worker (Inr (TextResponse ''wrong number, goodbye''))
                            (Inr (Some ''{...}'')) unrelated_answer))
             ''wrong number, goodbye'')
   \<and> snd (processCall (example_worker (Inr (TextResponse ''wrong number, goodbye''))
                         (Inr (Some ''{...}'')) unrelated_answer) ''call-1'' example_db) =
        [Whisper, Classifier]
   \<and> status_of (fst (processCall (example_worker (Inr (TextResponse ''wrong number, goodbye''))
                         (Inr (Some ''{...}'')) unrelated_answer) ''call-1'' example_db))
        ''call-1'' = Some ''irrelevant''
   \<and> recording_insert (example_upload (Inr (TextResponse ''wrong number, goodbye''))
                         (Inr (Some ''{...}'')) unrelated_answer) = Inr ''call-2''
   \<and> fst (snd (POST (example_upload (Inr (TextResponse ''wrong number, goodbye''))
                         (Inr (Some ''{...}'')) unrelated_answer) example_db)) =
        [Whisper, Classifier]
   \<and> status_of (fst (POST (example_upload (Inr (TextResponse ''wrong number, goodbye''))
                         (Inr (Some ''{...}'')) unrelated_answer) example_db))
        ''call-2'' = Some ''approved''"
proof -
  let ?w = "example_worker (Inr (TextResponse ''wrong number, goodbye''))
              (Inr (Some ''{...}'')) unrelated_answer"
  let ?u = "example_upload (Inr (TextResponse ''wrong number, goodbye''))
              (Inr (Some ''{...}'')) unrelated_answer"
  let ?file = "\<lparr>upload_name = ''call.mp3'', upload_type = ''audio/mpeg'',
                upload_size = 3, upload_bytes = [73, 68, 51]\<rparr>"
  let ?f = "\<lparr>form_file = Some ?file, form_phone_number = Some ''+15550100''\<rparr>"
  let ?c = "classifyTranscript (classifier ?w) (json_parse ?w) ''wrong number, goodbye''"
  let ?c' = "classifyTranscript (classifier ?u) (json_parse ?u) ''wrong number, goodbye''"
  have hw: "fetch_error ?w = None \<and> call_recordings example_db ''call-1'' = Some example_recording
      \<and> download ?w (storage_path example_recording) = Inr [73, 68, 51]
      \<and> transcribeAudio (whisper ?w) [73, 68, 51] (file_name example_recording)
          = Inr ''wrong number, goodbye''
      \<and> ?c = ?c"
    by (simp add: example_worker_def example_db_def transcribeAudio_def)
  have hu: "table_check_error ?u = None \<and> form ?u = Inr ?f \<and> form_file ?f = Some ?file
      \<and> truthy (form_phone_number ?f) \<and> upload_type ?file \<in> set allowedTypes
      \<and> recording_insert ?u = Inr ''call-2'' \<and> ''call-2'' \<noteq> []
      \<and> transcribeAudio (whisper ?u) (upload_bytes ?file) (upload_name ?file)
          = Inr ''wrong number, goodbye''
      \<and> transcript_insert_error ?u = None \<and> classification_insert_error ?u = None
      \<and> ?c' = ?c'"
    by (simp add: example_upload_def transcribeAudio_def allowedTypes_def)
  have fw: "\<not> flagged_blank ?c" "\<not> flagged_spam ?c" "\<not> flagged_relevant ?c"
    by (simp_all add: example_worker_def classifyTranscript_def unrelated_answer_def
          flagged_blank_def flagged_spam_def flagged_relevant_def)
  have fu: "\<not> flagged_blank ?c'" "\<not> flagged_spam ?c'" "\<not> flagged_relevant ?c'"
    by (simp_all add: example_upload_def classifyTranscript_def unrelated_answer_def
          flagged_blank_def flagged_spam_def flagged_relevant_def)
  note inst = classification_decides_route
      [where w = ?w and db = example_db and callId = "''call-1''" and r = example_recording
         and audioBuffer = "[73, 68, 51]" and transcript = "''wrong number, goodbye''"
         and c = ?c and u = ?u and f = ?f and audioFile = ?file and callId' = "''call-2''"
         and transcript' = "''wrong number, goodbye''" and c' = ?c' and db' = example_db]
  from inst [THEN conjunct1, THEN mp, OF hw] fw
  have rw: "snd (processCall ?w ''call-1'' example_db) = [Whisper, Classifier]
      \<and> status_of (fst (processCall ?w ''call-1'' example_db)) ''call-1'' = Some ''irrelevant''"
    by simp
  from inst [THEN conjunct2, THEN mp, OF hu] fu
  have ru: "fst (snd (POST ?u example_db)) = [Whisper, Classifier]
      \<and> status_of (fst (POST ?u example_db)) ''call-2'' = Some ''approved''"
    by simp
  show ?thesis
    using hw hu fw rw ru by simp
qed


section \<open>Properties of the response orchestrator\<close>

lemma respond_with_shape:
  "\<exists>messages rest result.
     respond_with w dataSource customSystemPrompt authToken originUrl matches
       fromNumber toNumber messageText messageId =
       (HistoryQuery fromNumber # ChatCompletion messages # rest, result)
     \<and> (\<forall>c \<in> set rest. \<not> shopify_call c)
     \<and> (\<forall>r. result = Inr r \<longrightarrow> ar_noDocuments r = None)"
proof -
  obtain messages where m: "messages = prompt_messages
      (if truthy customSystemPrompt
             then the customSystemPrompt @ newline @ newline @ (if dataSource = ''shopify'' then shopify_rules w else document_rules w)
             else ''You are a helpful ''
                  @ (if dataSource = ''shopify'' then ''Shopify store'' else ''WhatsApp'')
                  @ '' assistant.'' @ newline @ newline @ (if dataSource = ''shopify'' then shopify_rules w else document_rules w))
      (js_join (newline @ newline) (map retrieved_chunk matches))
      (build_history (case whatsapp_messages w of
                           Inl e \<Rightarrow> None
                         | Inr table \<Rightarrow> Some (history_query table fromNumber)))
      messageText" by blast
  show ?thesis
    unfolding respond_with_def Let_def m [symmetric]
    by (cases "chat_completion w messages")
       (auto simp add: shopify_call_def failure_def)
qed


lemma retrieve_file_path:
  assumes "dataSource \<noteq> ''shopify''"
  shows "take 2 (fst (retrieve_for_source w dataSource toNumber queryEmbedding)) =
           [FilesLookup toNumber, CallsLookup toNumber]"
    and "\<forall>c \<in> set (fst (retrieve_for_source w dataSource toNumber queryEmbedding)). \<not> shopify_call c"
    and "snd (retrieve_for_source w dataSource toNumber queryEmbedding) = Inr (Inl early) \<Longrightarrow>
           early = no_documents ''No documents or calls mapped to this business number''"
  using assms
  by (auto simp add: retrieve_for_source_def Let_def shopify_call_def
        split: prod.splits sum.splits if_splits)

lemma no_documents_differ:
  "no_documents ''No documents or calls mapped to this business number''
     \<noteq> no_documents ''No data source mapped to this business number''"
  by (simp add: no_documents_def)

lemma failure_is_not_no_documents: "failure m \<noteq> no_documents m'"
  by (simp add: failure_def no_documents_def)

lemma continue_file_path:
  assumes ds: "dataSource \<noteq> ''shopify''"
  shows "(\<forall>c \<in> set (fst (continue_with_source w dataSource fromNumber toNumber messageText messageId)).
            \<not> shopify_call c)
       \<and> (\<forall>r. snd (continue_with_source w dataSource fromNumber toNumber messageText messageId) = Inr r
            \<longrightarrow> r \<noteq> no_documents ''No data source mapped to this business number'')
       \<and> (\<forall>m ms qe. snd (retrySupabaseQuery (mapping_details_store w toNumber) 3) = Inr (m # ms)
            \<and> truthy (auth_token m) \<and> truthy (origin m)
            \<and> query_embedder w messageText = Inr (Some qe) \<longrightarrow>
            take 4 (fst (continue_with_source w dataSource fromNumber toNumber messageText messageId))
              = [MappingDetailsQuery toNumber, QueryEmbedding messageText,
                 FilesLookup toNumber, CallsLookup toNumber])"
proof (cases "snd (retrySupabaseQuery (mapping_details_store w toNumber) 3)")
  case (Inl mappingError)
  then show ?thesis
    by (simp add: continue_with_source_def shopify_call_def failure_is_not_no_documents)
next
  case (Inr phoneMappings)
  show ?thesis
  proof (cases "phoneMappings = [] \<or> \<not> truthy (auth_token (hd phoneMappings))
                 \<or> \<not> truthy (origin (hd phoneMappings))")
    case True
    with Inr show ?thesis
      by (auto simp add: continue_with_source_def Let_def shopify_call_def
            failure_is_not_no_documents)
  next
    case False
    then obtain m ms where pm: "phoneMappings = m # ms" and cred: "truthy (auth_token m)" "truthy (origin m)"
      by (cases phoneMappings) auto
    show ?thesis
    proof (cases "query_embedder w messageText")
      case (Inl e)
      with Inr pm cred show ?thesis
        by (simp add: continue_with_source_def Let_def shopify_call_def)
    next
      case emb: (Inr embedded)
      show ?thesis
      proof (cases embedded)
        case None
        with Inr pm cred emb show ?thesis
          by (simp add: continue_with_source_def Let_def shopify_call_def
                failure_is_not_no_documents)
      next
        case (Some queryEmbedding)
        obtain calls r where rf: "retrieve_for_source w dataSource toNumber queryEmbedding = (calls, r)"
          by (cases "retrieve_for_source w dataSource toNumber queryEmbedding")
        from retrieve_file_path [OF ds, of w toNumber queryEmbedding] rf
        have t2: "take 2 calls = [FilesLookup toNumber, CallsLookup toNumber]"
          and ns: "\<forall>c \<in> set calls. \<not> shopify_call c"
          and early: "\<And>early. r = Inr (Inl early) \<Longrightarrow>
             early = no_documents ''No documents or calls mapped to this business number''"
          by simp_all
        from t2 obtain rest where calls: "calls = FilesLookup toNumber # CallsLookup toNumber # rest"
          by (cases calls; cases "tl calls") auto
        show ?thesis
        proof (cases r)
          case (Inl e)
          with Inr pm cred emb Some rf calls ns show ?thesis
            by (simp add: continue_with_source_def Let_def shopify_call_def)
        next
          case rr: (Inr found)
          show ?thesis
          proof (cases found)
            case (Inl early')
            with early rr have "early' = no_documents ''No documents or calls mapped to this business number''"
              by simp
            with Inl rr Inr pm cred emb Some rf calls ns show ?thesis
              by (simp add: continue_with_source_def Let_def shopify_call_def no_documents_differ)
          next
            case (Inr matches)
            from respond_with_shape [of w dataSource "system_prompt m" "the (auth_token m)"
                "the (origin m)" matches fromNumber toNumber messageText messageId]
            obtain messages rest' result where
              rw: "respond_with w dataSource (system_prompt m) (the (auth_token m))
                     (the (origin m)) matches fromNumber toNumber messageText messageId =
                   (HistoryQuery fromNumber # ChatCompletion messages # rest', result)"
              and ns': "\<forall>c \<in> set rest'. \<not> shopify_call c"
              and nd: "\<forall>r. result = Inr r \<longrightarrow> ar_noDocuments r = None"
              by blast
            have nd': "\<forall>r. result = Inr r \<longrightarrow>
                         r \<noteq> no_documents ''No data source mapped to this business number''"
              using nd by (auto simp add: no_documents_def)
            from Inr rr \<open>snd (retrySupabaseQuery (mapping_details_store w toNumber) 3) = Inr phoneMappings\<close>
              pm cred emb Some rf calls ns rw ns' nd'
            show ?thesis
              by (auto simp add: continue_with_source_def Let_def shopify_call_def)
          qed
        qed
      qed
    qed
  qed
qed


lemma unset_source_is_file:
  assumes "snd (retrySupabaseQuery (store toNumber) 3) = Inr row"
    and "\<not> truthy (data_source row)"
  shows "returned (getDataSourceForPhone store toNumber) = Some ''file''"
  using assms
  by (cases "retrySupabaseQuery (store toNumber) 3") (simp add: getDataSourceForPhone_def)

text \<open>
  C10. When the mapping row of the business number has a \<open>data_source\<close> that is
  \<open>null\<close> or empty, \<open>getDataSourceForPhone\<close> returns \<open>'file'\<close>, not \<open>null\<close>.
  \<open>generateAutoResponse\<close> then goes on exactly as for a file-backed source: it does not
  return the result \<open>No data source mapped to this business number\<close>, it makes no call
  of the catalog path, and, once the mapping details with credentials and the query
  embedding are there, its calls begin with the data-source lookup, the mapping-details
  query, the embedding, and the lookups of the mapped files and calls.
\<close>

theorem unset_data_source_defaults_to_file:
  assumes row: "snd (retrySupabaseQuery (data_source_store w toNumber) 3) = Inr row"
    and unset: "data_source row = None \<or> data_source row = Some []"
  shows "returned (getDataSourceForPhone (data_source_store w) toNumber) = Some ''file''
       \<and> generateAutoResponse w fromNumber toNumber messageText messageId =
           (case continue_with_source w ''file'' fromNumber toNumber messageText messageId of
              (calls, Inr result) \<Rightarrow> (DataSourceLookup toNumber # calls, result)
            | (calls, Inl e) \<Rightarrow>
                (DataSourceLookup toNumber # calls,
                 failure (message_of (store_errors_are_Errors w) e)))
       \<and> snd (generateAutoResponse w fromNumber toNumber messageText messageId)
           \<noteq> no_documents ''No data source mapped to this business number''
       \<and> (\<forall>c \<in> set (fst (generateAutoResponse w fromNumber toNumber messageText messageId)).
            \<not> shopify_call c)
       \<and> (\<forall>m ms qe. snd (retrySupabaseQuery (mapping_details_store w toNumber) 3) = Inr (m # ms)
            \<and> truthy (auth_token m) \<and> truthy (origin m)
            \<and> query_embedder w messageText = Inr (Some qe) \<longrightarrow>
            take 5 (fst (generateAutoResponse w fromNumber toNumber messageText messageId))
              = [DataSourceLookup toNumber, MappingDetailsQuery toNumber,
                 QueryEmbedding messageText, FilesLookup toNumber, CallsLookup toNumber])"
proof -
  from unset have nt: "\<not> truthy (data_source row)" by auto
  have ds: "returned (getDataSourceForPhone (data_source_store w) toNumber) = Some ''file''"
    using unset_source_is_file [of "data_source_store w" toNumber row] row nt by simp
  obtain calls r where
    c: "continue_with_source w ''file'' fromNumber toNumber messageText messageId = (calls, r)"
    by (cases "continue_with_source w ''file'' fromNumber toNumber messageText messageId")
  have "''file'' \<noteq> ''shopify''" by simp
  from continue_file_path [OF this, of w fromNumber toNumber messageText messageId] c
  have ns: "\<forall>c \<in> set calls. \<not> shopify_call c"
    and nd: "\<forall>res. r = Inr res \<longrightarrow>
               res \<noteq> no_documents ''No data source mapped to this business number''"
    and path: "\<forall>m ms qe.
            snd (retrySupabaseQuery (mapping_details_store w toNumber) 3) = Inr (m # ms)
            \<and> truthy (auth_token m) \<and> truthy (origin m)
            \<and> query_embedder w messageText = Inr (Some qe) \<longrightarrow>
            take 4 calls = [MappingDetailsQuery toNumber, QueryEmbedding messageText,
                 FilesLookup toNumber, CallsLookup toNumber]"
    by simp_all
  have run: "generateAutoResponse w fromNumber toNumber messageText messageId =
           (case continue_with_source w ''file'' fromNumber toNumber messageText messageId of
              (calls, Inr result) \<Rightarrow> (DataSourceLookup toNumber # calls, result)
            | (calls, Inl e) \<Rightarrow>
                (DataSourceLookup toNumber # calls,
                 failure (message_of (store_errors_are_Errors w) e)))"
    by (simp add: generateAutoResponse_def ds Let_def)
  have first: "\<not> shopify_call (DataSourceLookup toNumber)"
    by (simp add: shopify_call_def)
  show ?thesis
  proof (cases r)
    case (Inl e)
    with run c ns first path ds show ?thesis
      by (simp add: failure_is_not_no_documents)
  next
    case (Inr res)
    with run c ns first path nd ds show ?thesis
      by simp
  qed
qed

theorem unset_data_source_defaults_to_file_witness:
  "snd (retrySupabaseQuery (data_source_store example_orchestrator ''+15550100'') 3) =
      Inr \<lparr>data_source = None\<rparr>
   \<and> returned (getDataSourceForPhone (data_source_store example_orchestrator) ''+15550100'') =
      Some ''file''
   \<and> snd (generateAutoResponse example_orchestrator ''+15550111'' ''+15550100''
             ''When are you open?'' ''msg-22'')
        \<noteq> no_documents ''No data source mapped to this business number''
   \<and> take 5 (fst (generateAutoResponse example_orchestrator ''+15550111'' ''+15550100''
                    ''When are you open?'' ''msg-22'')) =
        [DataSourceLookup ''+15550100'', MappingDetailsQuery ''+15550100'',
         QueryEmbedding ''When are you open?'', FilesLookup ''+15550100'',
         CallsLookup ''+15550100'']"
proof -
  let ?m = "\<lparr>system_prompt = None, intent = None, auth_token = Some ''token'',
             origin = Some ''https://example.org''\<rparr>"
  have row: "snd (retrySupabaseQuery (data_source_store example_orchestrator ''+15550100'') 3) =
               Inr \<lparr>data_source = None\<rparr>"
    by (simp add: example_orchestrator_def unset_source_store_def retrySupabaseQuery_def
          retry_loop.simps)
  have unset: "data_source \<lparr>data_source = None\<rparr> = None
               \<or> data_source \<lparr>data_source = None\<rparr> = Some []"
    by simp
  have details: "snd (retrySupabaseQuery
                        (mapping_details_store example_orchestrator ''+15550100'') 3) =
                   Inr (?m # [])
                 \<and> truthy (auth_token ?m) \<and> truthy (origin ?m)
                 \<and> query_embedder example_orchestrator ''When are you open?'' =
                     Inr (Some [1/2, 1/4])"
    by (simp add: example_orchestrator_def retrySupabaseQuery_def retry_loop.simps)
  note inst = unset_data_source_defaults_to_file
      [OF row unset, of "''+15550111''" "''When are you open?''" "''msg-22''"]
  note path = inst [THEN conjunct2, THEN conjunct2, THEN conjunct2, THEN conjunct2,
      THEN spec, THEN spec, THEN spec, THEN mp, OF details]
  show ?thesis
    using row inst [THEN conjunct1] inst [THEN conjunct2, THEN conjunct2, THEN conjunct1] path
    by simp
qed

lemma history_query_takes_oldest:
  assumes x: "x \<in> set (history_query table fromNumber)"
    and y: "y \<in> set table" "from_number y = fromNumber \<or> to_number y = fromNumber"
    and ny: "y \<notin> set (history_query table fromNumber)"
  shows "received_at x \<le> received_at y"
proof -
  let ?s = "sort_key received_at
              (filter (\<lambda>m. from_number m = fromNumber \<or> to_number m = fromNumber) table)"
  have sorted: "sorted (map received_at (take 20 ?s @ drop 20 ?s))"
    by simp
  from y have "y \<in> set (take 20 ?s @ drop 20 ?s)" by simp
  with ny have "y \<in> set (drop 20 ?s)"
    unfolding history_query_def set_append by blast
  moreover from x have "x \<in> set (take 20 ?s)"
    by (simp add: history_query_def)
  ultimately show ?thesis
    using sorted unfolding map_append sorted_append by auto
qed

lemma example_conversation_rows:
  "example_conversation =
     map example_message
       [21, 20, 19, 18, 17, 16, 15, 14, 13, 12, 11, 10, 9, 8, 7, 6, 5, 4, 3, 2, 1]"
  unfolding example_conversation_def by code_simp

lemma example_message_names:
  "map (\<lambda>k. ''message '' @ decimal k) [11, 12, 13, 14, 15, 16, 17, 18, 19, 20] =
     [''message 11'', ''message 12'', ''message 13'', ''message 14'', ''message 15'',
      ''message 16'', ''message 17'', ''message 18'', ''message 19'', ''message 20'']"
  by code_simp

lemma example_history_loaded:
  "map received_at (history_query example_conversation ''+15550111'') =
     [1, 2, 3, 4, 5, 6, 7, 8, 9, 10, 11, 12, 13, 14, 15, 16, 17, 18, 19, 20]"
  unfolding example_conversation_rows by (simp add: history_query_def example_message_def)

lemma example_history_kept:
  "map content (slice_last 10
      (build_history (Some (history_query example_conversation ''+15550111'')))) =
     map (\<lambda>k. ''message '' @ decimal k) [11, 12, 13, 14, 15, 16, 17, 18, 19, 20]"
  unfolding example_conversation_rows
  by (simp add: history_query_def example_message_def build_history_def slice_last_def)

text \<open>
  C8. The history query orders by \<open>received_at\<close> ascending and then limits to 20 rows, so
  it loads the 20 oldest messages that involve the counterpart, not the 20 most recent
  (\<open>history_query_takes_oldest\<close>). For a counterpart with 21 messages, received at times
  1 to 21, \<open>generateAutoResponse\<close> loads messages 1 to 20 and puts messages 11 to 20 into
  the prompt; message 21, the most recent one, is not loaded.
\<close>

theorem history_loads_oldest_twenty:
  "length (filter (\<lambda>m. from_number m = ''+15550111'' \<or> to_number m = ''+15550111'')
             example_conversation) = 21
   \<and> map received_at (history_query example_conversation ''+15550111'') =
        [1, 2, 3, 4, 5, 6, 7, 8, 9, 10, 11, 12, 13, 14, 15, 16, 17, 18, 19, 20]
   \<and> map content (slice_last 10
        (build_history (Some (history_query example_conversation ''+15550111'')))) =
        [''message 11'', ''message 12'', ''message 13'', ''message 14'', ''message 15'',
         ''message 16'', ''message 17'', ''message 18'', ''message 19'', ''message 20'']
   \<and> received_at (example_message 21) = 21
   \<and> example_message 21 \<in> set example_conversation
   \<and> 21 \<notin> set (map received_at (history_query example_conversation ''+15550111''))"
proof -
  have n: "length (filter (\<lambda>m. from_number m = ''+15550111'' \<or> to_number m = ''+15550111'')
             example_conversation) = 21"
    unfolding example_conversation_rows by (simp add: example_message_def)
  have last: "received_at (example_message 21) = 21"
    by (simp add: example_message_def)
  have there: "example_message 21 \<in> set example_conversation"
    unfolding example_conversation_rows by simp
  have absent: "21 \<notin> set (map received_at (history_query example_conversation ''+15550111''))"
    unfolding example_history_loaded by simp
  show ?thesis
    using n example_history_loaded example_history_kept [unfolded example_message_names]
      last there absent
    by (intro conjI)
qed

text \<open>
  The history that \<open>generateAutoResponse\<close> hands to the generation provider is this one:
  its second call in \<open>respond_with\<close> is the completion request for the prompt messages
  built from the loaded rows.
\<close>

lemma respond_with_prompt:
  assumes "whatsapp_messages w = Inr table"
  shows "\<exists>systemPrompt contextText.
           fst (respond_with w dataSource customSystemPrompt authToken originUrl matches
                  fromNumber toNumber messageText messageId) ! 1 =
             ChatCompletion
               (prompt_messages systemPrompt contextText
                  (build_history (Some (history_query table fromNumber))) messageText)"
  using assms
  by (cases "chat_completion w (prompt_messages
        (if truthy customSystemPrompt
         then the customSystemPrompt @ newline @ newline
              @ (if dataSource = ''shopify'' then shopify_rules w else document_rules w)
         else ''You are a helpful ''
              @ (if dataSource = ''shopify'' then ''Shopify store'' else ''WhatsApp'')
              @ '' assistant.'' @ newline @ newline
              @ (if dataSource = ''shopify'' then shopify_rules w else document_rules w))
        (js_join (newline @ newline) (map retrieved_chunk matches))
        (build_history (Some (history_query table fromNumber))) messageText)")
     (auto simp add: respond_with_def Let_def)


end
